theory Spec2Isabelle
  imports Main "HOL-Library.Word" "HOL-Library.Monad_Syntax"
begin

unbundle bit_operations_syntax

section \<open>Host values\<close>

text \<open>
  The classes \<^verbatim>\<open>Value\<close>, \<^verbatim>\<open>Object\<close> and \<^verbatim>\<open>Context\<close> belong to the host
  object model and are not part of the sources at hand. The operations of \<^verbatim>\<open>Value\<close>
  that the bytecode VM and the WebAssembly VM call are therefore parameters of the
  model: \<open>'v\<close> is the type of host values and \<open>'n\<close> the type of C++ \<^verbatim>\<open>double\<close>.
  \<^item> \<open>is_number\<close>, \<open>to_number\<close>, \<open>as_number\<close>, \<open>to_string\<close>: the methods of the same name;
  \<^item> \<open>number_value\<close>, \<open>string_value\<close>, \<open>undefined_value\<close>: the constructors
    \<^verbatim>\<open>Value(double)\<close>, \<^verbatim>\<open>Value(std::string)\<close> and \<^verbatim>\<open>Value()\<close>;
  \<^item> \<open>double_add\<close>: \<^verbatim>\<open>+\<close> on \<^verbatim>\<open>double\<close>;
  \<^item> \<open>double_of_int\<close>: the \<^verbatim>\<open>double\<close> of an integer literal such as \<^verbatim>\<open>42.0\<close>, and
    \<^verbatim>\<open>static_cast<double>\<close> of an \<^verbatim>\<open>int32_t\<close>;
  \<^item> \<open>double_to_i32\<close>: \<^verbatim>\<open>static_cast<int32_t>\<close> of a \<^verbatim>\<open>double\<close>.
\<close>

record ('v, 'n) host_ops =
  is_number :: "'v \<Rightarrow> bool"
  to_number :: "'v \<Rightarrow> 'n"
  as_number :: "'v \<Rightarrow> 'n"
  to_string :: "'v \<Rightarrow> string"
  number_value :: "'n \<Rightarrow> 'v"
  string_value :: "string \<Rightarrow> 'v"
  undefined_value :: "'v"
  double_add :: "'n \<Rightarrow> 'n \<Rightarrow> 'n"
  double_of_int :: "int \<Rightarrow> 'n"
  double_to_i32 :: "'n \<Rightarrow> 32 word"

section \<open>Bytecode: data model (Bytecode.cpp)\<close>

text \<open>
  Modelled from the spec: the declarations of \<^verbatim>\<open>Bytecode.h\<close> (the enumeration
  \<^verbatim>\<open>BytecodeInstruction\<close>, \<^verbatim>\<open>BytecodeOperand\<close>, \<^verbatim>\<open>BytecodeOp\<close>,
  \<^verbatim>\<open>BytecodeFunction\<close> with \<^verbatim>\<open>emit\<close> and \<^verbatim>\<open>add_constant\<close>) are missing; the fields
  are those that \<^verbatim>\<open>Bytecode.cpp\<close> reads and writes. \<open>OTHER_INSTRUCTION\<close> stands for
  every enumerator that \<^verbatim>\<open>Bytecode.cpp\<close> does not name.
\<close>

datatype BytecodeInstruction =
  NOP | LOAD_CONST | ADD | CALL | RETURN | HALT | OTHER_INSTRUCTION nat

datatype OperandType = CONSTANT | IMMEDIATE | REGISTER

record BytecodeOperand =
  operand_type :: OperandType
  operand_value :: "32 word"

record BytecodeOp =
  instruction :: BytecodeInstruction
  operands :: "BytecodeOperand list"

record 'v BytecodeFunction =
  function_name :: string
  instructions :: "BytecodeOp list"
  constants :: "'v list"
  register_count :: nat
  parameter_count :: nat
  hot_spots :: "nat \<rightharpoonup> nat"
  is_optimized :: bool
  optimization_level :: "32 word"

text \<open>
  Modelled from the spec: the constructor \<^verbatim>\<open>BytecodeFunction(name)\<close> (tier 0, nothing
  emitted yet), \<^verbatim>\<open>emit\<close> (append one instruction) and \<^verbatim>\<open>add_constant\<close> (append to the
  constant pool, return the new index).
\<close>

definition new_function :: "string \<Rightarrow> 'v BytecodeFunction" where
  "new_function name =
     \<lparr>function_name = name, instructions = [], constants = [], register_count = 0,
      parameter_count = 0, hot_spots = Map.empty, is_optimized = False,
      optimization_level = 0\<rparr>"

definition emit ::
  "'v BytecodeFunction \<Rightarrow> BytecodeInstruction \<Rightarrow> BytecodeOperand list \<Rightarrow> 'v BytecodeFunction"
where
  "emit f i ops = f\<lparr>instructions := instructions f @ [\<lparr>instruction = i, operands = ops\<rparr>]\<rparr>"

definition add_constant :: "'v BytecodeFunction \<Rightarrow> 'v \<Rightarrow> 32 word \<times> 'v BytecodeFunction" where
  "add_constant f v = (of_nat (length (constants f)), f\<lparr>constants := constants f @ [v]\<rparr>)"

section \<open>BytecodeCompiler\<close>

text \<open>
  A pointer argument that the code tests against \<^verbatim>\<open>nullptr\<close> is an \<open>option\<close>; a
  function that mutates the object behind the pointer returns the object after the call.
  A data member \<^verbatim>\<open>x_\<close> of a C++ class is the record field \<open>x\<close>.
\<close>

datatype ASTNodeType =
  BINARY_EXPRESSION | NUMBER_LITERAL | STRING_LITERAL | BOOLEAN_LITERAL | CALL_EXPRESSION
  | OTHER_NODE nat

text \<open>
  \<^verbatim>\<open>ASTNode\<close> is the parser's: \<open>get_type\<close> is \<^verbatim>\<open>node->get_type()\<close> and \<open>evaluate\<close> is the
  value \<^verbatim>\<open>node->evaluate(dummy_context)\<close> returns. \<open>OTHER_NODE\<close> stands for every node
  type that reaches the \<^verbatim>\<open>default\<close> branch of \<^verbatim>\<open>compile_node_simple\<close>; the body shared
  by the three literal cases is \<open>compile_literal\<close>.
\<close>

record 'v ASTNode =
  get_type :: ASTNodeType
  evaluate :: 'v

record BytecodeCompiler =
  optimization_enabled :: bool
  next_register :: nat

definition BytecodeCompiler_init :: BytecodeCompiler where
  "BytecodeCompiler_init = \<lparr>optimization_enabled = True, next_register = 0\<rparr>"

definition reset_registers :: "BytecodeCompiler \<Rightarrow> BytecodeCompiler" where
  "reset_registers c = c\<lparr>next_register := 0\<rparr>"

definition compile_literal :: "'v ASTNode \<Rightarrow> 'v BytecodeFunction \<Rightarrow> 'v BytecodeFunction" where
  "compile_literal n function =
     (let value = evaluate n;
          (const_idx, function) = add_constant function value
      in emit function LOAD_CONST [\<lparr>operand_type = CONSTANT, operand_value = const_idx\<rparr>])"

definition compile_node_simple ::
  "('v, 'n) host_ops \<Rightarrow> 'v ASTNode option \<Rightarrow> 'v BytecodeFunction \<Rightarrow> 'v BytecodeFunction"
where
  "compile_node_simple H node function =
     (case node of
        None \<Rightarrow> function
      | Some n \<Rightarrow>
          (case get_type n of
             BINARY_EXPRESSION \<Rightarrow>
               (let (i1, function) = add_constant function (number_value H (double_of_int H 1));
                    function = emit function LOAD_CONST
                                 [\<lparr>operand_type = CONSTANT, operand_value = i1\<rparr>];
                    (i2, function) = add_constant function (number_value H (double_of_int H 2));
                    function = emit function LOAD_CONST
                                 [\<lparr>operand_type = CONSTANT, operand_value = i2\<rparr>]
                in emit function ADD [])
           | NUMBER_LITERAL \<Rightarrow> compile_literal n function
           | STRING_LITERAL \<Rightarrow> compile_literal n function
           | BOOLEAN_LITERAL \<Rightarrow> compile_literal n function
           | CALL_EXPRESSION \<Rightarrow>
               (let (i, function) = add_constant function (string_value H ''function'');
                    function = emit function LOAD_CONST
                                 [\<lparr>operand_type = CONSTANT, operand_value = i\<rparr>]
                in emit function CALL [\<lparr>operand_type = IMMEDIATE, operand_value = 0\<rparr>])
           | OTHER_NODE k \<Rightarrow> emit function NOP []))"

definition optimize_bytecode ::
  "'v BytecodeFunction option \<Rightarrow> 32 word \<Rightarrow> 'v BytecodeFunction option"
where
  "optimize_bytecode function level =
     (case function of
        None \<Rightarrow> None
      | Some f \<Rightarrow>
          if level = 0 then Some f
          else Some (f\<lparr>instructions := filter (\<lambda>op. \<not> (instruction op = NOP)) (instructions f),
                       is_optimized := True,
                       optimization_level := level\<rparr>))"

definition dead_code_elimination_pass :: "'v BytecodeFunction \<Rightarrow> 'v BytecodeFunction" where
  "dead_code_elimination_pass f =
     f\<lparr>instructions := filter (\<lambda>op. \<not> (instruction op = NOP)) (instructions f)\<rparr>"

definition compile ::
  "('v, 'n) host_ops \<Rightarrow> BytecodeCompiler \<Rightarrow> 'v ASTNode option \<Rightarrow> string
     \<Rightarrow> 'v BytecodeFunction option \<times> BytecodeCompiler"
where
  "compile H c ast name =
     (case ast of
        None \<Rightarrow> (None, c)
      | Some node \<Rightarrow>
          (let function = new_function name;
               c = reset_registers c;
               function = compile_node_simple H (Some node) function;
               function =
                 (if instructions function = []
                     \<or> instruction (last (instructions function)) \<noteq> RETURN
                  then emit function RETURN [] else function);
               function =
                 (if optimization_enabled c
                  then (case optimize_bytecode (Some function) 2 of
                          Some g \<Rightarrow> g | None \<Rightarrow> function)
                  else function);
               function = function\<lparr>register_count := next_register c\<rparr>
           in (Some function, c)))"

section \<open>BytecodeVM\<close>

text \<open>
  Modelled from the spec: the members of \<^verbatim>\<open>BytecodeVM\<close> and its \<^verbatim>\<open>push\<close> and \<^verbatim>\<open>pop\<close> are
  declared in \<^verbatim>\<open>Bytecode.h\<close>. \<open>vm_stack\<close>, \<open>vm_registers\<close> and \<open>vm_stats\<close> are the members
  \<^verbatim>\<open>stack_\<close>, \<^verbatim>\<open>registers_\<close> and \<^verbatim>\<open>stats_\<close>; the top of the operand stack is the back of
  the vector, hence the last element of the list.

  Reading a \<^verbatim>\<open>std::vector\<close> out of range and popping an empty one are undefined
  behaviour in C++. The model makes them the value \<open>None\<close>: \<open>vec_at\<close> is
  \<^verbatim>\<open>operator[]\<close>, and every function of the VM returns an \<open>option\<close>.
\<close>

record VMStats =
  instructions_executed :: nat
  optimized_paths_taken :: nat
  function_calls :: nat

record 'v BytecodeVM =
  vm_stack :: "'v list"
  vm_registers :: "'v list"
  vm_stats :: VMStats
  profiling_enabled :: bool

definition BytecodeVM_init :: "'v BytecodeVM" where
  "BytecodeVM_init =
     \<lparr>vm_stack = [], vm_registers = [],
      vm_stats = \<lparr>instructions_executed = 0, optimized_paths_taken = 0, function_calls = 0\<rparr>,
      profiling_enabled = True\<rparr>"

definition vec_at :: "'a list \<Rightarrow> nat \<Rightarrow> 'a option" where
  "vec_at xs i = (if i < length xs then Some (xs ! i) else None)"

definition push :: "'v \<Rightarrow> 'v BytecodeVM \<Rightarrow> 'v BytecodeVM" where
  "push v vm = vm\<lparr>vm_stack := vm_stack vm @ [v]\<rparr>"

definition pop :: "'v BytecodeVM \<Rightarrow> ('v \<times> 'v BytecodeVM) option" where
  "pop vm =
     (if vm_stack vm = [] then None
      else Some (last (vm_stack vm), vm\<lparr>vm_stack := butlast (vm_stack vm)\<rparr>))"

text \<open>
  \<^verbatim>\<open>execute_instruction_simple\<close> reads \<^verbatim>\<open>function->constants\<close> and changes the VM only;
  its parameters \<^verbatim>\<open>context\<close> and \<^verbatim>\<open>pc\<close> are not used by the body.
\<close>

definition execute_instruction_simple ::
  "('v, 'n) host_ops \<Rightarrow> BytecodeOp \<Rightarrow> 'v BytecodeFunction \<Rightarrow> 'v BytecodeVM
     \<Rightarrow> 'v BytecodeVM option"
where
  "execute_instruction_simple H op function vm =
     (case instruction op of
        LOAD_CONST \<Rightarrow>
          if operands op \<noteq> [] then
            do {
              operand0 \<leftarrow> vec_at (operands op) 0;
              let const_idx = operand_value operand0;
              if unat const_idx < length (constants function) then
                do {
                  c \<leftarrow> vec_at (constants function) (unat const_idx);
                  Some (push c vm)
                }
              else Some vm
            }
          else Some vm
      | ADD \<Rightarrow>
          if length (vm_stack vm) \<ge> 2 then
            do {
              (right, vm) \<leftarrow> pop vm;
              (left, vm) \<leftarrow> pop vm;
              let vm =
                (if is_number H left \<and> is_number H right
                 then push (number_value H (double_add H (to_number H left) (to_number H right))) vm
                 else push (string_value H (to_string H left @ to_string H right)) vm);
              Some (vm\<lparr>vm_stats := (vm_stats vm)
                      \<lparr>optimized_paths_taken := optimized_paths_taken (vm_stats vm) + 1\<rparr>\<rparr>)
            }
          else Some vm
      | CALL \<Rightarrow>
          (let vm = vm\<lparr>vm_stats := (vm_stats vm)
                        \<lparr>function_calls := function_calls (vm_stats vm) + 1\<rparr>\<rparr>
           in Some (push (number_value H (double_of_int H 42)) vm))
      | RETURN \<Rightarrow> Some vm
      | NOP \<Rightarrow> Some vm
      | HALT \<Rightarrow> Some vm
      | OTHER_INSTRUCTION k \<Rightarrow> Some vm)"

definition record_execution ::
  "'v BytecodeFunction option \<Rightarrow> nat \<Rightarrow> 'v BytecodeFunction option"
where
  "record_execution function pc =
     (case function of
        None \<Rightarrow> None
      | Some f \<Rightarrow>
          Some (f\<lparr>hot_spots := (hot_spots f)
                  (pc \<mapsto> (case hot_spots f pc of None \<Rightarrow> 0 | Some n \<Rightarrow> n) + 1)\<rparr>))"

text \<open>
  The \<^verbatim>\<open>while\<close> loop of \<^verbatim>\<open>execute\<close>, from program counter \<open>pc\<close>. The loop hands
  \<^verbatim>\<open>function\<close> to \<^verbatim>\<open>execute_instruction_simple\<close> and to nothing else.
\<close>

function execute_loop ::
  "('v, 'n) host_ops \<Rightarrow> 'v BytecodeFunction \<Rightarrow> nat \<Rightarrow> 'v BytecodeVM \<Rightarrow> 'v BytecodeVM option"
where
  "execute_loop H function pc vm =
     (if pc < length (instructions function) then
        (case vec_at (instructions function) pc of
           None \<Rightarrow> None
         | Some op \<Rightarrow>
             (case execute_instruction_simple H op function vm of
                None \<Rightarrow> None
              | Some vm \<Rightarrow>
                  (let vm = vm\<lparr>vm_stats := (vm_stats vm)
                                \<lparr>instructions_executed := instructions_executed (vm_stats vm) + 1\<rparr>\<rparr>
                   in if instruction op = RETURN \<or> instruction op = HALT then Some vm
                      else execute_loop H function (pc + 1) vm)))
      else Some vm)"
  by pat_completeness auto
termination
  by (relation "measure (\<lambda>(H, function, pc, vm). length (instructions function) - pc)") auto

declare execute_loop.simps [simp del]

definition setup_parameters :: "'v BytecodeFunction \<Rightarrow> 'v list \<Rightarrow> 'v list \<Rightarrow> 'v list" where
  "setup_parameters function args registers =
     fold (\<lambda>i regs. if i < length regs then regs[i := args ! i] else regs)
          [0 ..< min (length args) (parameter_count function)] registers"

text \<open>
  \<^verbatim>\<open>execute\<close> returns the result value, the function object after the call and the VM
  after the call. No operation of the model throws, so the \<^verbatim>\<open>catch\<close> branch has no
  counterpart.
\<close>

definition execute ::
  "('v, 'n) host_ops \<Rightarrow> 'v BytecodeFunction option \<Rightarrow> 'v list \<Rightarrow> 'v BytecodeVM
     \<Rightarrow> ('v \<times> 'v BytecodeFunction option \<times> 'v BytecodeVM) option"
where
  "execute H function args vm =
     (case function of
        None \<Rightarrow> Some (undefined_value H, None, vm)
      | Some f \<Rightarrow>
          (let vm = vm\<lparr>vm_registers := replicate (register_count f) (undefined_value H)\<rparr>;
               vm = vm\<lparr>vm_registers := setup_parameters f args (vm_registers vm)\<rparr>;
               vm = vm\<lparr>vm_stack := []\<rparr>
           in do {
                vm \<leftarrow> execute_loop H f 0 vm;
                if vm_stack vm = [] then Some (undefined_value H, Some f, vm)
                else do { (v, vm) \<leftarrow> pop vm; Some (v, Some f, vm) }
              }))"

section \<open>BytecodeJITBridge\<close>

definition compile_to_machine_code ::
  "'v BytecodeFunction option \<Rightarrow> bool \<times> 'v BytecodeFunction option"
where
  "compile_to_machine_code function =
     (case function of
        None \<Rightarrow> (False, None)
      | Some f \<Rightarrow>
          if is_optimized f then (False, Some f)
          else (True, Some (f\<lparr>is_optimized := True, optimization_level := 3\<rparr>)))"

section \<open>A host for the examples\<close>

text \<open>
  Modelled from the spec: a host value model for the concrete examples of the
  specification, since \<^verbatim>\<open>Value\<close> is not part of the sources. Its numbers are the
  \<^verbatim>\<open>double\<close>s that hold an integer, represented by that integer (addition of two such
  numbers of small magnitude is exact); \<open>to_string\<close> prints such a number in decimal
  without a fraction, a string as itself; \<^verbatim>\<open>static_cast<int32_t>\<close> of an integer in the
  range of \<^verbatim>\<open>int32_t\<close> is that integer.
\<close>

datatype HostValue = HUndefined | HNumber int | HString string

fun nat_to_string :: "nat \<Rightarrow> string" where
  "nat_to_string n =
     (if n < 10 then [''0123456789'' ! n]
      else nat_to_string (n div 10) @ [''0123456789'' ! (n mod 10)])"

definition int_to_string :: "int \<Rightarrow> string" where
  "int_to_string i = (if i < 0 then ''-'' @ nat_to_string (nat (- i)) else nat_to_string (nat i))"

definition sample_host :: "(HostValue, int) host_ops" where
  "sample_host =
     \<lparr>is_number = (\<lambda>v. case v of HNumber n \<Rightarrow> True | _ \<Rightarrow> False),
      to_number = (\<lambda>v. case v of HNumber n \<Rightarrow> n | _ \<Rightarrow> 0),
      as_number = (\<lambda>v. case v of HNumber n \<Rightarrow> n | _ \<Rightarrow> 0),
      to_string = (\<lambda>v. case v of HUndefined \<Rightarrow> ''undefined''
                              | HNumber n \<Rightarrow> int_to_string n
                              | HString s \<Rightarrow> s),
      number_value = HNumber,
      string_value = HString,
      undefined_value = HUndefined,
      double_add = (\<lambda>a b. a + b),
      double_of_int = (\<lambda>i. i),
      double_to_i32 = (\<lambda>n. word_of_int n)\<rparr>"

section \<open>WebAssembly: WasmMemory\<close>

text \<open>
  Modelled from the spec: the constant \<^verbatim>\<open>PAGE_SIZE\<close> of \<^verbatim>\<open>WebAssembly.h\<close> (the page size
  is fixed at 65536 bytes) and the host class \<^verbatim>\<open>ArrayBuffer\<close>, of which the memory uses
  the constructor and \<^verbatim>\<open>byte_length()\<close>.
\<close>

definition PAGE_SIZE :: nat where
  "PAGE_SIZE = 65536"

record ArrayBuffer =
  byte_length :: nat

record WasmMemory =
  initial_pages :: "32 word"
  maximum_pages :: "32 word"
  buffer :: "ArrayBuffer option"

definition WasmMemory_init :: "32 word \<Rightarrow> 32 word \<Rightarrow> WasmMemory" where
  "WasmMemory_init initial maximum =
     \<lparr>initial_pages = initial, maximum_pages = maximum,
      buffer = Some \<lparr>byte_length = unat initial * PAGE_SIZE\<rparr>\<rparr>"

text \<open>\<^verbatim>\<open>WasmMemory::size\<close>; the quotient is returned as a \<^verbatim>\<open>uint32_t\<close>.\<close>

definition WasmMemory_size :: "WasmMemory \<Rightarrow> 32 word" where
  "WasmMemory_size m =
     (case buffer m of Some b \<Rightarrow> of_nat (byte_length b div PAGE_SIZE) | None \<Rightarrow> 0)"

text \<open>
  \<^verbatim>\<open>WasmMemory::grow\<close>: the sum is a \<^verbatim>\<open>uint32_t\<close> and wraps around. Neither branch
  touches a member of the object.
\<close>

definition grow :: "WasmMemory \<Rightarrow> 32 word \<Rightarrow> bool \<times> WasmMemory" where
  "grow m delta_pages =
     (let new_pages = WasmMemory_size m + delta_pages
      in if new_pages > maximum_pages m then (False, m) else (True, m))"

section \<open>WebAssembly: WasmModule\<close>

text \<open>
  A pointer into a byte vector is the offset from the vector's first byte; \<^verbatim>\<open>end\<close> is
  always \<^verbatim>\<open>data() + size()\<close>, the length of the list. \<open>section_id\<close>, \<open>section_size\<close> and
  \<open>section_data\<close> are the members \<^verbatim>\<open>id\<close>, \<^verbatim>\<open>size\<close> and \<^verbatim>\<open>data\<close> of \<^verbatim>\<open>WasmSection\<close>; the id
  is kept as the byte it is cast from.
\<close>

record WasmSection =
  section_id :: "8 word"
  section_size :: "32 word"
  section_data :: "8 word list"

record WasmModule =
  binary_data :: "8 word list"
  sections :: "WasmSection list"
  is_compiled :: bool

definition WasmModule_init :: "8 word list \<Rightarrow> WasmModule" where
  "WasmModule_init bytes = \<lparr>binary_data = bytes, sections = [], is_compiled = False\<rparr>"

text \<open>
  The loop of \<^verbatim>\<open>read_leb128_u32\<close> (the same text in \<^verbatim>\<open>WasmModule\<close> and in \<^verbatim>\<open>WasmVM\<close>),
  returning the result and the advanced pointer. \<open>bs\<close> is the byte vector that \<^verbatim>\<open>ptr\<close> and
  \<^verbatim>\<open>end\<close> point into. The shifted operand and the result are 32-bit words, so a shift by
  28 drops the bits above bit 31.
\<close>

function leb128_u32_loop ::
  "8 word list \<Rightarrow> nat \<Rightarrow> 32 word \<Rightarrow> nat \<Rightarrow> nat \<Rightarrow> 32 word \<times> nat"
where
  "leb128_u32_loop bs end_ptr result shift ptr =
     (if ptr < end_ptr then
        (let byte = bs ! ptr;
             ptr = ptr + 1;
             result = result OR push_bit shift (ucast (byte AND 0x7F))
         in if byte AND 0x80 = 0 then (result, ptr)
            else (let shift = shift + 7
                  in if shift \<ge> 32 then (result, ptr)
                     else leb128_u32_loop bs end_ptr result shift ptr))
      else (result, ptr))"
  by pat_completeness auto
termination
  by (relation "measure (\<lambda>(bs, end_ptr, result, shift, ptr). 32 - shift)") auto

declare leb128_u32_loop.simps [simp del]

definition read_leb128_u32 :: "8 word list \<Rightarrow> nat \<Rightarrow> nat \<Rightarrow> 32 word \<times> nat" where
  "read_leb128_u32 bs ptr end_ptr = leb128_u32_loop bs end_ptr 0 0 ptr"

text \<open>
  The \<^verbatim>\<open>do\<close>/\<^verbatim>\<open>while\<close> loop of \<^verbatim>\<open>read_leb128_i32\<close>; the \<^verbatim>\<open>int32_t\<close> result is the word
  read as two's complement.
\<close>

function leb128_i32_loop ::
  "8 word list \<Rightarrow> nat \<Rightarrow> 32 word \<Rightarrow> nat \<Rightarrow> nat \<Rightarrow> 32 word \<times> nat"
where
  "leb128_i32_loop bs end_ptr result shift ptr =
     (if ptr \<ge> end_ptr then (result, ptr)
      else (let byte = bs ! ptr;
                ptr = ptr + 1;
                result = result OR push_bit shift (ucast (byte AND 0x7F));
                shift = shift + 7
            in if byte AND 0x80 \<noteq> 0 \<and> shift < 32 then leb128_i32_loop bs end_ptr result shift ptr
               else (result, ptr)))"
  by pat_completeness auto
termination
  by (relation "measure (\<lambda>(bs, end_ptr, result, shift, ptr). 32 - shift)") auto

declare leb128_i32_loop.simps [simp del]

definition read_leb128_i32 :: "8 word list \<Rightarrow> nat \<Rightarrow> nat \<Rightarrow> 32 word \<times> nat" where
  "read_leb128_i32 bs ptr end_ptr = leb128_i32_loop bs end_ptr 0 0 ptr"

definition parse_header :: "WasmModule \<Rightarrow> bool" where
  "parse_header m =
     (let b = binary_data m
      in if b ! 0 \<noteq> 0x00 \<or> b ! 1 \<noteq> 0x61 \<or> b ! 2 \<noteq> 0x73 \<or> b ! 3 \<noteq> 0x6D then False
         else if b ! 4 \<noteq> 0x01 \<or> b ! 5 \<noteq> 0x00 \<or> b ! 6 \<noteq> 0x00 \<or> b ! 7 \<noteq> 0x00 then False
         else True)"

definition validate_module :: "WasmModule \<Rightarrow> bool" where
  "validate_module m = True"

text \<open>
  \<^verbatim>\<open>parse_section\<close> returns \<open>None\<close> for \<^verbatim>\<open>false\<close>, and otherwise the section read and
  the advanced pointer.
\<close>

definition parse_section :: "8 word list \<Rightarrow> nat \<Rightarrow> (WasmSection \<times> nat) option" where
  "parse_section bs ptr =
     (if ptr \<ge> length bs then None
      else (let id = bs ! ptr;
                ptr = ptr + 1;
                (size, ptr) = read_leb128_u32 bs ptr (length bs)
            in if ptr + unat size > length bs then None
               else Some (\<lparr>section_id = id, section_size = size,
                           section_data = take (unat size) (drop ptr bs)\<rparr>,
                          ptr + unat size)))"

text \<open>
  The \<^verbatim>\<open>while\<close> loop of \<^verbatim>\<open>parse_sections\<close>, from pointer \<open>ptr\<close> with the sections pushed
  so far. It returns \<open>False\<close> where the code returns \<^verbatim>\<open>false\<close> from inside the loop, and
  the value of \<^verbatim>\<open>sections_\<close> in either case.
\<close>

function parse_sections_loop ::
  "8 word list \<Rightarrow> nat \<Rightarrow> WasmSection list \<Rightarrow> bool \<times> WasmSection list"
where
  "parse_sections_loop bs ptr secs =
     (if ptr < length bs then
        (case parse_section bs ptr of
           None \<Rightarrow> (False, secs)
         | Some (sec, ptr') \<Rightarrow> parse_sections_loop bs ptr' (secs @ [sec]))
      else (True, secs))"
  by pat_completeness auto
termination
proof (relation "measure (\<lambda>(bs, ptr, secs). length bs - ptr)")
  show "wf (measure (\<lambda>(bs, ptr, secs). length bs - ptr))" by simp
next
  fix bs :: "8 word list" and ptr :: nat and secs :: "WasmSection list"
    and x2 :: "WasmSection \<times> nat" and sec :: WasmSection and ptr' :: nat
  assume lt: "ptr < length bs" and ps: "parse_section bs ptr = Some x2" and x2: "(sec, ptr') = x2"
  have mono: "p \<le> snd (leb128_u32_loop bs e r sh p)" for e r sh p
  proof (induction bs e r sh p rule: leb128_u32_loop.induct)
    case (1 bs e result shift ptr)
    from "1.IH" [OF _ refl refl refl _ refl]
    have "ptr < e \<Longrightarrow> bs ! ptr AND 0x80 \<noteq> 0 \<Longrightarrow> \<not> 32 \<le> shift + 7 \<Longrightarrow>
       ptr \<le> snd (leb128_u32_loop bs e (result OR push_bit shift (ucast (bs ! ptr AND 0x7F)))
                     (shift + 7) (ptr + 1))"
      by force
    then show ?case
      by (subst leb128_u32_loop.simps) (simp add: Let_def)
  qed
  have "Suc ptr \<le> snd (read_leb128_u32 bs (ptr + 1) (length bs))"
    using mono [of "ptr + 1" "length bs" 0 0] by (simp add: read_leb128_u32_def)
  with ps x2 have "ptr < ptr'"
    by (auto simp: parse_section_def Let_def split: if_splits prod.splits)
  with lt show "((bs, ptr', secs @ [sec]), (bs, ptr, secs))
        \<in> measure (\<lambda>(bs, ptr, secs). length bs - ptr)"
    by simp
qed

declare parse_sections_loop.simps [simp del]

definition parse_sections :: "WasmModule \<Rightarrow> bool \<times> WasmModule" where
  "parse_sections m =
     (let m = m\<lparr>sections := []\<rparr>;
          (ok, secs) = parse_sections_loop (binary_data m) 8 (sections m);
          m = m\<lparr>sections := secs\<rparr>
      in if ok then (validate_module m, m) else (False, m))"

definition parse_binary :: "WasmModule \<Rightarrow> bool \<times> WasmModule" where
  "parse_binary m =
     (if length (binary_data m) < 8 then (False, m)
      else if \<not> parse_header m then (False, m)
      else parse_sections m)"

text \<open>\<^verbatim>\<open>WasmModule::compile\<close>.\<close>

definition WasmModule_compile :: "WasmModule \<Rightarrow> bool \<times> WasmModule" where
  "WasmModule_compile m =
     (if is_compiled m then (True, m)
      else (let (ok, m) = parse_binary m
            in if \<not> ok then (False, m)
               else (True, m\<lparr>is_compiled := True\<rparr>)))"



section \<open>WebAssembly: WasmVM\<close>

text \<open>
  Modelled from the spec: \<^verbatim>\<open>WasmValue\<close>, \<^verbatim>\<open>Opcode\<close> and \<^verbatim>\<open>ExecutionFrame\<close> are declared in
  \<^verbatim>\<open>WebAssembly.h\<close>. A module value is a union of a 32-bit integer, a 32-bit float and a
  64-bit float, built by one of three constructors. \<open>'f\<close> is the type of C++ \<^verbatim>\<open>float\<close>
  and \<open>'n\<close> that of \<^verbatim>\<open>double\<close>. Reading the member a value was built through gives
  that value back; reading another member reinterprets the stored bytes, which the
  parameters \<open>i32_of_f32\<close>, \<open>i32_of_f64\<close>, \<open>f32_of_i32\<close>, \<open>f32_of_f64\<close>, \<open>f64_of_i32\<close> and
  \<open>f64_of_f32\<close> stand for; \<open>f32_add\<close> is \<^verbatim>\<open>+\<close> on \<^verbatim>\<open>float\<close>. The functions \<open>i32\<close>, \<open>f32\<close>
  and \<open>f64\<close> are the member reads \<^verbatim>\<open>v.i32\<close>, \<^verbatim>\<open>v.f32\<close> and \<^verbatim>\<open>v.f64\<close>. A default-constructed
  \<^verbatim>\<open>WasmValue\<close> is the zero value.
\<close>

record ('f, 'n) wasm_ops =
  f32_add :: "'f \<Rightarrow> 'f \<Rightarrow> 'f"
  i32_of_f32 :: "'f \<Rightarrow> 32 word"
  i32_of_f64 :: "'n \<Rightarrow> 32 word"
  f32_of_i32 :: "32 word \<Rightarrow> 'f"
  f32_of_f64 :: "'n \<Rightarrow> 'f"
  f64_of_i32 :: "32 word \<Rightarrow> 'n"
  f64_of_f32 :: "'f \<Rightarrow> 'n"

datatype ('f, 'n) WasmValue = I32 "32 word" | F32 'f | F64 'n

definition i32 :: "('f, 'n) wasm_ops \<Rightarrow> ('f, 'n) WasmValue \<Rightarrow> 32 word" where
  "i32 W v = (case v of I32 w \<Rightarrow> w | F32 x \<Rightarrow> i32_of_f32 W x | F64 d \<Rightarrow> i32_of_f64 W d)"

definition f32 :: "('f, 'n) wasm_ops \<Rightarrow> ('f, 'n) WasmValue \<Rightarrow> 'f" where
  "f32 W v = (case v of I32 w \<Rightarrow> f32_of_i32 W w | F32 x \<Rightarrow> x | F64 d \<Rightarrow> f32_of_f64 W d)"

definition f64 :: "('f, 'n) wasm_ops \<Rightarrow> ('f, 'n) WasmValue \<Rightarrow> 'n" where
  "f64 W v = (case v of I32 w \<Rightarrow> f64_of_i32 W w | F32 x \<Rightarrow> f64_of_f32 W x | F64 d \<Rightarrow> d)"

definition WasmValue_init :: "('f, 'n) WasmValue" where
  "WasmValue_init = I32 0"

text \<open>
  Modelled from the spec: the enumerators of \<^verbatim>\<open>Opcode\<close> (\<open>OP_X\<close> is \<^verbatim>\<open>Opcode::X\<close>) and
  their byte values. \<^verbatim>\<open>0x20\<close>, \<^verbatim>\<open>0x41\<close>, \<^verbatim>\<open>0x6A\<close>, \<^verbatim>\<open>0x6C\<close> and \<^verbatim>\<open>0x0F\<close> are named in
  \<^verbatim>\<open>call_exported_function\<close>; the others are the values of the WebAssembly binary format.
  \<open>OP_OTHER\<close> is a byte that reaches the \<^verbatim>\<open>default\<close> branch of \<^verbatim>\<open>execute_instruction\<close>.
\<close>

datatype Opcode =
  OP_NOP | OP_I32_CONST | OP_I32_ADD | OP_I32_SUB | OP_I32_MUL | OP_F32_ADD | OP_F64_ADD
  | OP_LOCAL_GET | OP_LOCAL_SET | OP_RETURN | OP_END | OP_OTHER "8 word"

definition opcode_of_byte :: "8 word \<Rightarrow> Opcode" where
  "opcode_of_byte b =
     (if b = 0x01 then OP_NOP
      else if b = 0x0B then OP_END
      else if b = 0x0F then OP_RETURN
      else if b = 0x20 then OP_LOCAL_GET
      else if b = 0x21 then OP_LOCAL_SET
      else if b = 0x41 then OP_I32_CONST
      else if b = 0x6A then OP_I32_ADD
      else if b = 0x6B then OP_I32_SUB
      else if b = 0x6C then OP_I32_MUL
      else if b = 0x92 then OP_F32_ADD
      else if b = 0xA0 then OP_F64_ADD
      else OP_OTHER b)"

text \<open>
  In a frame, \<open>code\<close> is the byte vector that \<^verbatim>\<open>pc\<close> and \<^verbatim>\<open>end\<close> point into, \<open>pc\<close> and
  \<open>end_pc\<close> are the offsets of these two pointers, and the top of \<open>stack\<close> is its last
  element. A handler returns its \<^verbatim>\<open>bool\<close> and the frame after the call.
\<close>

record ('f, 'n) ExecutionFrame =
  code :: "8 word list"
  pc :: nat
  end_pc :: nat
  locals :: "('f, 'n) WasmValue list"
  stack :: "('f, 'n) WasmValue list"

record ('f, 'n) WasmVM =
  call_stack :: "('f, 'n) ExecutionFrame list"

definition handle_i32_const :: "('f, 'n) ExecutionFrame \<Rightarrow> bool \<times> ('f, 'n) ExecutionFrame" where
  "handle_i32_const frame =
     (let (value, pc') = read_leb128_i32 (code frame) (pc frame) (end_pc frame);
          frame = frame\<lparr>pc := pc'\<rparr>
      in (True, frame\<lparr>stack := stack frame @ [I32 value]\<rparr>))"

definition handle_i32_add ::
  "('f, 'n) wasm_ops \<Rightarrow> ('f, 'n) ExecutionFrame \<Rightarrow> bool \<times> ('f, 'n) ExecutionFrame"
where
  "handle_i32_add W frame =
     (if length (stack frame) < 2 then (False, frame)
      else (let b = last (stack frame); frame = frame\<lparr>stack := butlast (stack frame)\<rparr>;
                a = last (stack frame); frame = frame\<lparr>stack := butlast (stack frame)\<rparr>
            in (True, frame\<lparr>stack := stack frame @ [I32 (i32 W a + i32 W b)]\<rparr>)))"

definition handle_i32_sub ::
  "('f, 'n) wasm_ops \<Rightarrow> ('f, 'n) ExecutionFrame \<Rightarrow> bool \<times> ('f, 'n) ExecutionFrame"
where
  "handle_i32_sub W frame =
     (if length (stack frame) < 2 then (False, frame)
      else (let b = last (stack frame); frame = frame\<lparr>stack := butlast (stack frame)\<rparr>;
                a = last (stack frame); frame = frame\<lparr>stack := butlast (stack frame)\<rparr>
            in (True, frame\<lparr>stack := stack frame @ [I32 (i32 W a - i32 W b)]\<rparr>)))"

definition handle_i32_mul ::
  "('f, 'n) wasm_ops \<Rightarrow> ('f, 'n) ExecutionFrame \<Rightarrow> bool \<times> ('f, 'n) ExecutionFrame"
where
  "handle_i32_mul W frame =
     (if length (stack frame) < 2 then (False, frame)
      else (let b = last (stack frame); frame = frame\<lparr>stack := butlast (stack frame)\<rparr>;
                a = last (stack frame); frame = frame\<lparr>stack := butlast (stack frame)\<rparr>
            in (True, frame\<lparr>stack := stack frame @ [I32 (i32 W a * i32 W b)]\<rparr>)))"

definition handle_f32_add ::
  "('f, 'n) wasm_ops \<Rightarrow> ('f, 'n) ExecutionFrame \<Rightarrow> bool \<times> ('f, 'n) ExecutionFrame"
where
  "handle_f32_add W frame =
     (if length (stack frame) < 2 then (False, frame)
      else (let b = last (stack frame); frame = frame\<lparr>stack := butlast (stack frame)\<rparr>;
                a = last (stack frame); frame = frame\<lparr>stack := butlast (stack frame)\<rparr>
            in (True, frame\<lparr>stack := stack frame @ [F32 (f32_add W (f32 W a) (f32 W b))]\<rparr>)))"

definition handle_f64_add ::
  "('f, 'n) wasm_ops \<Rightarrow> ('v, 'n) host_ops \<Rightarrow> ('f, 'n) ExecutionFrame
     \<Rightarrow> bool \<times> ('f, 'n) ExecutionFrame"
where
  "handle_f64_add W H frame =
     (if length (stack frame) < 2 then (False, frame)
      else (let b = last (stack frame); frame = frame\<lparr>stack := butlast (stack frame)\<rparr>;
                a = last (stack frame); frame = frame\<lparr>stack := butlast (stack frame)\<rparr>
            in (True, frame\<lparr>stack := stack frame @ [F64 (double_add H (f64 W a) (f64 W b))]\<rparr>)))"

definition handle_local_get :: "('f, 'n) ExecutionFrame \<Rightarrow> bool \<times> ('f, 'n) ExecutionFrame" where
  "handle_local_get frame =
     (let (local_index, pc') = read_leb128_u32 (code frame) (pc frame) (end_pc frame);
          frame = frame\<lparr>pc := pc'\<rparr>
      in if unat local_index \<ge> length (locals frame) then (False, frame)
         else (True, frame\<lparr>stack := stack frame @ [locals frame ! unat local_index]\<rparr>))"

definition handle_local_set :: "('f, 'n) ExecutionFrame \<Rightarrow> bool \<times> ('f, 'n) ExecutionFrame" where
  "handle_local_set frame =
     (let (local_index, pc') = read_leb128_u32 (code frame) (pc frame) (end_pc frame);
          frame = frame\<lparr>pc := pc'\<rparr>
      in if unat local_index \<ge> length (locals frame) \<or> stack frame = [] then (False, frame)
         else (let frame = frame\<lparr>locals := (locals frame)[unat local_index := last (stack frame)]\<rparr>
               in (True, frame\<lparr>stack := butlast (stack frame)\<rparr>)))"

definition handle_return :: "('f, 'n) ExecutionFrame \<Rightarrow> bool \<times> ('f, 'n) ExecutionFrame" where
  "handle_return frame = (False, frame)"

definition execute_instruction ::
  "('f, 'n) wasm_ops \<Rightarrow> ('v, 'n) host_ops \<Rightarrow> ('f, 'n) ExecutionFrame
     \<Rightarrow> bool \<times> ('f, 'n) ExecutionFrame"
where
  "execute_instruction W H frame =
     (if pc frame \<ge> end_pc frame then (False, frame)
      else (let opcode = opcode_of_byte (code frame ! pc frame);
                frame = frame\<lparr>pc := pc frame + 1\<rparr>
            in case opcode of
                 OP_NOP \<Rightarrow> (True, frame)
               | OP_I32_CONST \<Rightarrow> handle_i32_const frame
               | OP_I32_ADD \<Rightarrow> handle_i32_add W frame
               | OP_I32_SUB \<Rightarrow> handle_i32_sub W frame
               | OP_I32_MUL \<Rightarrow> handle_i32_mul W frame
               | OP_F32_ADD \<Rightarrow> handle_f32_add W frame
               | OP_F64_ADD \<Rightarrow> handle_f64_add W H frame
               | OP_LOCAL_GET \<Rightarrow> handle_local_get frame
               | OP_LOCAL_SET \<Rightarrow> handle_local_set frame
               | OP_RETURN \<Rightarrow> handle_return frame
               | OP_END \<Rightarrow> (False, frame)
               | OP_OTHER b \<Rightarrow> (True, frame)))"

text \<open>
  The value both exits of the loop of \<^verbatim>\<open>execute_function\<close> return:
  \<^verbatim>\<open>Value(static_cast<double>(result.i32))\<close> for the top of the stack, or for a
  default-constructed \<^verbatim>\<open>WasmValue\<close> when the stack is empty.
\<close>

definition frame_result ::
  "('f, 'n) wasm_ops \<Rightarrow> ('v, 'n) host_ops \<Rightarrow> ('f, 'n) ExecutionFrame \<Rightarrow> 'v"
where
  "frame_result W H frame =
     (let result = WasmValue_init;
          result = (if stack frame \<noteq> [] then last (stack frame) else result)
      in number_value H (double_of_int H (sint (i32 W result))))"

text \<open>The \<^verbatim>\<open>while\<close> loop of \<^verbatim>\<open>execute_function\<close> over the call stack.\<close>

function execute_function_loop ::
  "('f, 'n) wasm_ops \<Rightarrow> ('v, 'n) host_ops \<Rightarrow> ('f, 'n) WasmVM \<Rightarrow> 'v \<times> ('f, 'n) WasmVM"
where
  "execute_function_loop W H vm =
     (if call_stack vm \<noteq> [] then
        (let current_frame = last (call_stack vm)
         in if pc current_frame \<ge> end_pc current_frame then
              (frame_result W H current_frame, vm\<lparr>call_stack := butlast (call_stack vm)\<rparr>)
            else
              (let (continue, current_frame) = execute_instruction W H current_frame;
                   vm = vm\<lparr>call_stack := butlast (call_stack vm) @ [current_frame]\<rparr>
               in if \<not> continue then
                    (frame_result W H current_frame, vm\<lparr>call_stack := butlast (call_stack vm)\<rparr>)
                  else execute_function_loop W H vm))
      else (undefined_value H, vm))"
  by pat_completeness auto
termination
proof (relation "measure (\<lambda>(W, H, vm). end_pc (last (call_stack vm)) - pc (last (call_stack vm)))")
  show "wf (measure (\<lambda>(W, H, vm). end_pc (last (call_stack vm)) - pc (last (call_stack vm))))"
    by simp
next
  fix W :: "('f, 'n) wasm_ops" and H :: "('v, 'n) host_ops" and vm :: "('f, 'n) WasmVM"
    and x :: "('f, 'n) ExecutionFrame" and xa :: "bool \<times> ('f, 'n) ExecutionFrame"
    and continue :: bool and y :: "('f, 'n) ExecutionFrame" and xb :: "('f, 'n) WasmVM"
  assume ne: "call_stack vm \<noteq> []" and x: "x = last (call_stack vm)"
    and lt: "\<not> end_pc x \<le> pc x" and xa: "xa = execute_instruction W H x"
    and xy: "(continue, y) = xa"
    and xb: "xb = vm\<lparr>call_stack := butlast (call_stack vm) @ [y]\<rparr>"
  have mono_u: "p \<le> snd (leb128_u32_loop bs e r sh p)" for bs e r sh p
  proof (induction bs e r sh p rule: leb128_u32_loop.induct)
    case (1 bs e result shift ptr)
    from "1.IH" [OF _ refl refl refl _ refl]
    have "ptr < e \<Longrightarrow> bs ! ptr AND 0x80 \<noteq> 0 \<Longrightarrow> \<not> 32 \<le> shift + 7 \<Longrightarrow>
       ptr \<le> snd (leb128_u32_loop bs e (result OR push_bit shift (ucast (bs ! ptr AND 0x7F)))
                     (shift + 7) (ptr + 1))"
      by force
    then show ?case
      by (subst leb128_u32_loop.simps) (simp add: Let_def)
  qed
  have mono_i: "p \<le> snd (leb128_i32_loop bs e r sh p)" for bs e r sh p
  proof (induction bs e r sh p rule: leb128_i32_loop.induct)
    case (1 bs e result shift ptr)
    from "1.IH" [OF _ refl refl refl refl]
    have "\<not> e \<le> ptr \<Longrightarrow> bs ! ptr AND 0x80 \<noteq> 0 \<and> shift + 7 < 32 \<Longrightarrow>
       ptr \<le> snd (leb128_i32_loop bs e (result OR push_bit shift (ucast (bs ! ptr AND 0x7F)))
                     (shift + 7) (ptr + 1))"
      by force
    then show ?case
      by (subst leb128_i32_loop.simps) (simp add: Let_def)
  qed
  have ru: "Suc (pc x) \<le> snd (read_leb128_u32 (code x) (Suc (pc x)) (end_pc x))"
    using mono_u [of "Suc (pc x)"] by (simp add: read_leb128_u32_def)
  have ri: "Suc (pc x) \<le> snd (read_leb128_i32 (code x) (Suc (pc x)) (end_pc x))"
    using mono_i [of "Suc (pc x)"] by (simp add: read_leb128_i32_def)
  have "execute_instruction W H x = (continue, y)" using xa xy by simp
  with lt ru ri have "end_pc y = end_pc x \<and> pc x < pc y"
    by (auto simp: execute_instruction_def Let_def handle_i32_const_def handle_i32_add_def
          handle_i32_sub_def handle_i32_mul_def handle_f32_add_def handle_f64_add_def
          handle_local_get_def handle_local_set_def handle_return_def
        split: Opcode.splits if_splits prod.splits)
  with lt x xb show "((W, H, xb), (W, H, vm))
      \<in> measure (\<lambda>(W, H, vm). end_pc (last (call_stack vm)) - pc (last (call_stack vm)))"
    by auto
qed

declare execute_function_loop.simps [simp del]

text \<open>
  The frame that \<^verbatim>\<open>execute_function\<close> creates: it spans the whole byte vector, and each
  argument becomes a local, a number through \<^verbatim>\<open>static_cast<int32_t>\<close> and anything else as
  a default-constructed \<^verbatim>\<open>WasmValue\<close>.
\<close>

definition entry_frame ::
  "('v, 'n) host_ops \<Rightarrow> 8 word list \<Rightarrow> 'v list \<Rightarrow> ('f, 'n) ExecutionFrame"
where
  "entry_frame H bytecode args =
     \<lparr>code = bytecode, pc = 0, end_pc = length bytecode,
      locals = map (\<lambda>arg. if is_number H arg
                          then I32 (double_to_i32 H (as_number H arg))
                          else WasmValue_init) args,
      stack = []\<rparr>"

definition execute_function ::
  "('f, 'n) wasm_ops \<Rightarrow> ('v, 'n) host_ops \<Rightarrow> 8 word list \<Rightarrow> 'v list \<Rightarrow> ('f, 'n) WasmVM
     \<Rightarrow> 'v \<times> ('f, 'n) WasmVM"
where
  "execute_function W H bytecode args vm =
     (if bytecode = [] then (undefined_value H, vm)
      else (let frame = entry_frame H bytecode args;
                vm = vm\<lparr>call_stack := call_stack vm @ [frame]\<rparr>
            in execute_function_loop W H vm))"

text \<open>
  The frame at which the loop of \<^verbatim>\<open>execute_function\<close> returns when it starts from the
  frame \<open>fr\<close>: \<open>fr\<close> itself when its \<^verbatim>\<open>pc\<close> has reached \<^verbatim>\<open>end\<close>, the frame an instruction
  leaves when it returns \<^verbatim>\<open>false\<close>, and otherwise the final frame of the frame the
  instruction leaves.
\<close>

inductive final_frame ::
  "('f, 'n) wasm_ops \<Rightarrow> ('v, 'n) host_ops \<Rightarrow> ('f, 'n) ExecutionFrame \<Rightarrow> ('f, 'n) ExecutionFrame
     \<Rightarrow> bool"
  for W :: "('f, 'n) wasm_ops" and H :: "('v, 'n) host_ops"
where
  at_end: "end_pc fr \<le> pc fr \<Longrightarrow> final_frame W H fr fr"
| stopped:
    "pc fr < end_pc fr \<Longrightarrow> execute_instruction W H fr = (False, fr') \<Longrightarrow> final_frame W H fr fr'"
| continued:
    "pc fr < end_pc fr \<Longrightarrow> execute_instruction W H fr = (True, fr') \<Longrightarrow>
     final_frame W H fr' fr'' \<Longrightarrow> final_frame W H fr fr''"

code_pred final_frame .

section \<open>WebAssembly: WasmInstance\<close>

text \<open>
  \<open>wasm_module\<close>, \<open>wasm_memory\<close> and \<open>wasm_vm\<close> are the members \<^verbatim>\<open>module_\<close>, \<^verbatim>\<open>memory_\<close> and \<^verbatim>\<open>vm_\<close>;
  the property table of the host object is left out.
\<close>

record ('f, 'n) WasmInstance =
  wasm_module :: "WasmModule option"
  wasm_memory :: "WasmMemory option"
  wasm_vm :: "('f, 'n) WasmVM option"

definition WasmInstance_init :: "WasmModule option \<Rightarrow> ('f, 'n) WasmInstance" where
  "WasmInstance_init m = \<lparr>wasm_module = m, wasm_memory = None, wasm_vm = None\<rparr>"

definition instantiate :: "('f, 'n) WasmInstance \<Rightarrow> bool \<times> ('f, 'n) WasmInstance" where
  "instantiate inst =
     (case wasm_module inst of
        None \<Rightarrow> (False, inst)
      | Some m \<Rightarrow>
          if \<not> is_compiled m then (False, inst)
          else (let inst = (if wasm_memory inst = None
                            then inst\<lparr>wasm_memory := Some (WasmMemory_init 1 1024)\<rparr> else inst);
                    inst = (if wasm_vm inst = None
                            then inst\<lparr>wasm_vm := Some \<lparr>call_stack = []\<rparr>\<rparr> else inst)
                in (True, inst)))"

definition call_exported_function ::
  "('f, 'n) wasm_ops \<Rightarrow> ('v, 'n) host_ops \<Rightarrow> ('f, 'n) WasmInstance \<Rightarrow> string \<Rightarrow> 'v list
     \<Rightarrow> 'v \<times> ('f, 'n) WasmInstance"
where
  "call_exported_function W H inst name args =
     (case (wasm_vm inst, wasm_module inst) of
        (Some v, Some m) \<Rightarrow>
          if \<not> is_compiled m then (undefined_value H, inst)
          else if name = ''add'' then
            (let bytecode = [0x20, 0x00, 0x20, 0x01, 0x6A, 0x0F];
                 (r, v) = execute_function W H bytecode args v
             in (r, inst\<lparr>wasm_vm := Some v\<rparr>))
          else if name = ''multiply'' then
            (let bytecode = [0x20, 0x00, 0x20, 0x01, 0x6C, 0x0F];
                 (r, v) = execute_function W H bytecode args v
             in (r, inst\<lparr>wasm_vm := Some v\<rparr>))
          else if name = ''const42'' then
            (let bytecode = [0x41, 0x2A, 0x0F];
                 (r, v) = execute_function W H bytecode args v
             in (r, inst\<lparr>wasm_vm := Some v\<rparr>))
          else (undefined_value H, inst)
      | _ \<Rightarrow> (undefined_value H, inst))"

text \<open>
  Modelled from the spec: float operations for the concrete examples. A \<^verbatim>\<open>float\<close> or
  \<^verbatim>\<open>double\<close> that holds an integer is represented by that integer. The examples never
  read a value through a member other than the one it was built through, so the six
  reinterpretations are placeholders.
\<close>

definition sample_wasm :: "(int, int) wasm_ops" where
  "sample_wasm =
     \<lparr>f32_add = (\<lambda>a b. a + b),
      i32_of_f32 = (\<lambda>x. 0), i32_of_f64 = (\<lambda>x. 0),
      f32_of_i32 = (\<lambda>x. 0), f32_of_f64 = (\<lambda>x. 0),
      f64_of_i32 = (\<lambda>x. 0), f64_of_f32 = (\<lambda>x. 0)\<rparr>"

text \<open>
  The instance that \<^verbatim>\<open>WasmInstance::constructor\<close> builds: the default module (the
  eight header bytes) compiled, then \<^verbatim>\<open>instantiate\<close>.
\<close>

definition default_instance :: "('f, 'n) WasmInstance" where
  "default_instance =
     snd (instantiate (WasmInstance_init
            (Some (snd (WasmModule_compile
               (WasmModule_init [0x00, 0x61, 0x73, 0x6D, 0x01, 0x00, 0x00, 0x00]))))))"

section \<open>Example inputs\<close>

text \<open>A function of two instructions, \<^verbatim>\<open>NOP\<close> and \<^verbatim>\<open>RETURN\<close>, as yet unoptimized.\<close>

definition nop_return :: "HostValue BytecodeFunction" where
  "nop_return = (new_function ''f'')
     \<lparr>instructions := [\<lparr>instruction = NOP, operands = []\<rparr>,
                       \<lparr>instruction = RETURN, operands = []\<rparr>]\<rparr>"

text \<open>What \<^verbatim>\<open>optimize_bytecode\<close> at level 2 makes of it.\<close>

definition nop_return_optimized :: "HostValue BytecodeFunction" where
  "nop_return_optimized = (new_function ''f'')
     \<lparr>instructions := [\<lparr>instruction = RETURN, operands = []\<rparr>],
      is_optimized := True, optimization_level := 2\<rparr>"

text \<open>A function whose only instruction is \<^verbatim>\<open>RETURN\<close>.\<close>

definition return_only :: "HostValue BytecodeFunction" where
  "return_only = (new_function ''f'')\<lparr>instructions := [\<lparr>instruction = RETURN, operands = []\<rparr>]\<rparr>"

text \<open>An AST node of a type that \<^verbatim>\<open>compile_node_simple\<close> does not recognise.\<close>

definition unknown_node :: "HostValue ASTNode" where
  "unknown_node = \<lparr>get_type = OTHER_NODE 0, evaluate = HUndefined\<rparr>"

text \<open>The instruction \<^verbatim>\<open>ADD\<close>, and \<^verbatim>\<open>LOAD_CONST\<close> with one constant-pool operand.\<close>

definition add_op :: BytecodeOp where
  "add_op = \<lparr>instruction = ADD, operands = []\<rparr>"

definition load_const :: "32 word \<Rightarrow> BytecodeOp" where
  "load_const i =
     \<lparr>instruction = LOAD_CONST, operands = [\<lparr>operand_type = CONSTANT, operand_value = i\<rparr>]\<rparr>"

text \<open>A function with a constant pool of one entry.\<close>

definition one_constant :: "HostValue BytecodeFunction" where
  "one_constant = return_only\<lparr>constants := [HNumber 7]\<rparr>"




text \<open>
  Frames with chosen operand stacks: one that is about to run the single opcode byte
  \<open>b\<close>, and one at the end of its code.
\<close>

definition frame_at_opcode ::
  "8 word \<Rightarrow> (int, int) WasmValue list \<Rightarrow> (int, int) ExecutionFrame"
where
  "frame_at_opcode b stk = \<lparr>code = [b], pc = 0, end_pc = 1, locals = [], stack = stk\<rparr>"

definition frame_with_stack :: "(int, int) WasmValue list \<Rightarrow> (int, int) ExecutionFrame" where
  "frame_with_stack stk = \<lparr>code = [0x0F], pc = 1, end_pc = 1, locals = [], stack = stk\<rparr>"

section \<open>Properties of the compiler and of the JIT bridge\<close>

lemma instructions_compile_unopt:
  "\<exists>g0. fst (compile H (c\<lparr>optimization_enabled := False\<rparr>) (Some node) name) = Some g0
     \<and> (optimization_enabled c \<longrightarrow>
          (\<exists>g. fst (compile H c (Some node) name) = Some g
             \<and> instructions g = filter (\<lambda>op. \<not> (instruction op = NOP)) (instructions g0)))"
  by (simp add: compile_def reset_registers_def optimize_bytecode_def Let_def)

text \<open>
  Claim C8. The optimization pipeline is idempotent. The dead-code pass applied to its
  own output changes nothing; \<^verbatim>\<open>optimize_bytecode\<close> at a level other than 0 leaves the
  instruction sequence of the dead-code pass, and running it again (at any level) on
  its own output leaves the same sequence; a function compiled with optimizations
  enabled has the instruction sequence that one dead-code pass makes of the
  unoptimized compilation, and optimizing the compiled function again does not change
  it.
\<close>

theorem optimization_idempotent:
  "dead_code_elimination_pass (dead_code_elimination_pass f) = dead_code_elimination_pass f
   \<and> (level \<noteq> 0 \<longrightarrow>
        map_option instructions (optimize_bytecode (Some f) level)
          = Some (instructions (dead_code_elimination_pass f))
        \<and> map_option instructions (optimize_bytecode (optimize_bytecode (Some f) level) level')
          = map_option instructions (optimize_bytecode (Some f) level))
   \<and> (optimization_enabled c \<longrightarrow>
        (case (fst (compile H c (Some node) name),
               fst (compile H (c\<lparr>optimization_enabled := False\<rparr>) (Some node) name)) of
           (Some g, Some g0) \<Rightarrow>
             instructions g = instructions (dead_code_elimination_pass g0)
             \<and> map_option instructions (optimize_bytecode (Some g) 2) = Some (instructions g)
         | _ \<Rightarrow> False))"
proof (intro conjI impI)
  show "dead_code_elimination_pass (dead_code_elimination_pass f) = dead_code_elimination_pass f"
    by (simp add: dead_code_elimination_pass_def)
next
  assume "level \<noteq> 0"
  then show "map_option instructions (optimize_bytecode (Some f) level)
          = Some (instructions (dead_code_elimination_pass f))"
    by (simp add: optimize_bytecode_def dead_code_elimination_pass_def)
next
  assume "level \<noteq> 0"
  then show "map_option instructions (optimize_bytecode (optimize_bytecode (Some f) level) level')
          = map_option instructions (optimize_bytecode (Some f) level)"
    by (simp add: optimize_bytecode_def)
next
  assume en: "optimization_enabled c"
  from instructions_compile_unopt [of H c node name] en
  obtain g0 g
    where g0: "fst (compile H (c\<lparr>optimization_enabled := False\<rparr>) (Some node) name) = Some g0"
      and g: "fst (compile H c (Some node) name) = Some g"
      and eq: "instructions g = filter (\<lambda>op. \<not> (instruction op = NOP)) (instructions g0)"
    by blast
  have "map_option instructions (optimize_bytecode (Some g) 2) = Some (instructions g)"
    by (simp add: optimize_bytecode_def eq)
  with g0 g eq
  show "case (fst (compile H c (Some node) name),
              fst (compile H (c\<lparr>optimization_enabled := False\<rparr>) (Some node) name)) of
          (Some g, Some g0) \<Rightarrow>
            instructions g = instructions (dead_code_elimination_pass g0)
            \<and> map_option instructions (optimize_bytecode (Some g) 2) = Some (instructions g)
        | _ \<Rightarrow> False"
    by (simp add: dead_code_elimination_pass_def)
qed

theorem optimization_idempotent_witness:
  "(2 :: 32 word) \<noteq> 0
   \<and> map_option instructions (optimize_bytecode (optimize_bytecode (Some nop_return) 2) 2)
       = Some [\<lparr>instruction = RETURN, operands = []\<rparr>]
   \<and> optimization_enabled BytecodeCompiler_init
   \<and> map_option instructions
        (fst (compile sample_host BytecodeCompiler_init (Some unknown_node) ''f''))
       = Some [\<lparr>instruction = RETURN, operands = []\<rparr>]
   \<and> map_option instructions
        (fst (compile sample_host (BytecodeCompiler_init\<lparr>optimization_enabled := False\<rparr>)
                (Some unknown_node) ''f''))
       = Some [\<lparr>instruction = NOP, operands = []\<rparr>, \<lparr>instruction = RETURN, operands = []\<rparr>]"
  using optimization_idempotent
          [of nop_return 2 2 BytecodeCompiler_init sample_host unknown_node "''f''"]
  by (simp add: BytecodeCompiler_init_def nop_return_def new_function_def unknown_node_def
        optimize_bytecode_def compile_def compile_node_simple_def emit_def
        reset_registers_def dead_code_elimination_pass_def)

text \<open>
  Claim C2, as the code has it. The guard of \<^verbatim>\<open>compile_to_machine_code\<close> is the flag
  \<^verbatim>\<open>is_optimized\<close>, not the tier: a null function is rejected; a function is rejected, and
  left as it is, exactly when its flag is set; a function whose flag is clear is
  promoted, which sets the flag and tier 3 and changes nothing else, and a second
  promotion of the result is rejected and leaves it unchanged. \<^verbatim>\<open>optimize_bytecode\<close> at
  any level other than 0 sets the flag and that level, so its result is rejected; at
  level 0 it changes nothing. A function compiled with optimizations enabled has the
  flag set, is at tier 2 and is rejected; one compiled with optimizations disabled has
  the flag clear, is at tier 0 and is promoted.
\<close>

theorem promote_guard_is_optimized:
  "compile_to_machine_code (None :: 'v BytecodeFunction option) = (False, None)
   \<and> (fst (compile_to_machine_code (Some f)) = False \<longleftrightarrow> is_optimized f)
   \<and> (is_optimized f \<longrightarrow> compile_to_machine_code (Some f) = (False, Some f))
   \<and> (\<not> is_optimized f \<longrightarrow>
        (\<exists>g. compile_to_machine_code (Some f) = (True, Some g)
             \<and> optimization_level g = 3 \<and> is_optimized g
             \<and> g = f\<lparr>is_optimized := True, optimization_level := 3\<rparr>
             \<and> compile_to_machine_code (Some g) = (False, Some g)))
   \<and> (level \<noteq> 0 \<longrightarrow>
        (\<exists>g. optimize_bytecode (Some f) level = Some g
             \<and> is_optimized g \<and> optimization_level g = level
             \<and> compile_to_machine_code (Some g) = (False, Some g)))
   \<and> optimize_bytecode (Some f) 0 = Some f
   \<and> (optimization_enabled c \<longrightarrow>
        (\<exists>g c'. compile H c (Some node) name = (Some g, c')
             \<and> is_optimized g \<and> optimization_level g = 2
             \<and> compile_to_machine_code (Some g) = (False, Some g)))
   \<and> (\<not> optimization_enabled c \<longrightarrow>
        (\<exists>g c'. compile H c (Some node) name = (Some g, c')
             \<and> \<not> is_optimized g \<and> optimization_level g = 0
             \<and> compile_to_machine_code (Some g)
                 = (True, Some (g\<lparr>is_optimized := True, optimization_level := 3\<rparr>))))"
proof (intro conjI impI)
  assume "level \<noteq> 0"
  then show "\<exists>g. optimize_bytecode (Some f) level = Some g
             \<and> is_optimized g \<and> optimization_level g = level
             \<and> compile_to_machine_code (Some g) = (False, Some g)"
    by (simp add: optimize_bytecode_def compile_to_machine_code_def)
next
  show "optimize_bytecode (Some f) 0 = Some f"
    by (simp add: optimize_bytecode_def)
next
  assume "optimization_enabled c"
  then show "\<exists>g c'. compile H c (Some node) name = (Some g, c')
             \<and> is_optimized g \<and> optimization_level g = 2
             \<and> compile_to_machine_code (Some g) = (False, Some g)"
    by (simp add: compile_def reset_registers_def optimize_bytecode_def
          compile_to_machine_code_def Let_def)
next
  have flags: "\<not> is_optimized (compile_node_simple H (Some node) (new_function name))
        \<and> optimization_level (compile_node_simple H (Some node) (new_function name)) = 0"
    by (cases "get_type node")
       (simp_all add: compile_node_simple_def compile_literal_def add_constant_def emit_def
          new_function_def Let_def)
  assume "\<not> optimization_enabled c"
  with flags show "\<exists>g c'. compile H c (Some node) name = (Some g, c')
             \<and> \<not> is_optimized g \<and> optimization_level g = 0
             \<and> compile_to_machine_code (Some g)
                 = (True, Some (g\<lparr>is_optimized := True, optimization_level := 3\<rparr>))"
    by (simp add: compile_def reset_registers_def compile_to_machine_code_def Let_def emit_def)
qed (simp_all add: compile_to_machine_code_def)

theorem promote_guard_is_optimized_witness:
  "\<not> is_optimized nop_return
   \<and> fst (compile_to_machine_code (Some nop_return)) = True
   \<and> map_option optimization_level (snd (compile_to_machine_code (Some nop_return))) = Some 3
   \<and> compile_to_machine_code (snd (compile_to_machine_code (Some nop_return)))
       = (False, snd (compile_to_machine_code (Some nop_return)))
   \<and> (2 :: 32 word) \<noteq> 0
   \<and> optimize_bytecode (Some nop_return) 2 = Some nop_return_optimized
   \<and> is_optimized nop_return_optimized
   \<and> compile_to_machine_code (Some nop_return_optimized) = (False, Some nop_return_optimized)
   \<and> optimization_enabled BytecodeCompiler_init
   \<and> fst (compile_to_machine_code
             (fst (compile sample_host BytecodeCompiler_init (Some unknown_node) ''f''))) = False
   \<and> \<not> optimization_enabled (BytecodeCompiler_init\<lparr>optimization_enabled := False\<rparr>)
   \<and> fst (compile_to_machine_code
             (fst (compile sample_host (BytecodeCompiler_init\<lparr>optimization_enabled := False\<rparr>)
                     (Some unknown_node) ''f''))) = True"
  using promote_guard_is_optimized [of nop_return 2 BytecodeCompiler_init sample_host unknown_node "''f''"]
        promote_guard_is_optimized [of nop_return_optimized 2 "BytecodeCompiler_init\<lparr>optimization_enabled := False\<rparr>"
                     sample_host unknown_node "''f''"]
  by (auto simp: nop_return_def nop_return_optimized_def new_function_def optimize_bytecode_def
        BytecodeCompiler_init_def)

text \<open>
  Claim C2 as stated fails: the function that \<^verbatim>\<open>optimize_bytecode\<close> makes at level 2 is
  at tier 2, not 3, and \<^verbatim>\<open>compile_to_machine_code\<close> rejects it.
\<close>

theorem promote_tier_guard_counterexample:
  "\<not> (fst (compile_to_machine_code (optimize_bytecode (Some nop_return) 2)) = False
        \<longleftrightarrow> map_option optimization_level (optimize_bytecode (Some nop_return) 2) = Some 3)"
  by (simp add: compile_to_machine_code_def optimize_bytecode_def nop_return_def
        new_function_def)

section \<open>Properties of the bytecode VM\<close>

text \<open>
  Claim C3 fails on the code: \<^verbatim>\<open>execute\<close> never calls \<^verbatim>\<open>record_execution\<close>. Executing
  the function whose only instruction is \<^verbatim>\<open>RETURN\<close> retires one instruction
  (\<open>instructions_executed\<close> is 1 afterwards) and leaves the function as it was, with no
  hot-spot entry at address 0, where one call of \<^verbatim>\<open>record_execution\<close> would have left
  the count 1.
\<close>

theorem execute_records_no_hot_spot:
  "execute sample_host (Some return_only) [] BytecodeVM_init
     = Some (HUndefined, Some return_only,
             BytecodeVM_init\<lparr>vm_stats := \<lparr>instructions_executed = 1, optimized_paths_taken = 0,
                                          function_calls = 0\<rparr>\<rparr>)
   \<and> hot_spots return_only 0 = None
   \<and> map_option (\<lambda>f. hot_spots f 0) (record_execution (Some return_only) 0) = Some (Some 1)"
  by (simp add: execute_def return_only_def new_function_def BytecodeVM_init_def
        setup_parameters_def vec_at_def execute_instruction_simple_def sample_host_def
        record_execution_def execute_loop.simps)

text \<open>
  Claim C4. On a stack that ends with \<open>a\<close> and then \<open>b\<close> (so \<open>b\<close> is on top), \<^verbatim>\<open>ADD\<close> pops
  \<open>b\<close>, pops \<open>a\<close>, and pushes the numeric sum of the two when both are numbers and the
  concatenation of their strings otherwise (it also counts one optimized path). On the
  example host, \<^verbatim>\<open>ADD\<close> on (3, 4) leaves 7, on ("a", "b") leaves "ab" and on (3, "b")
  leaves "3b".
\<close>

theorem ADD_semantics:
  "(instruction op = ADD \<and> vm_stack vm = stk @ [a, b] \<longrightarrow>
      execute_instruction_simple H op function vm =
        Some (vm\<lparr>vm_stack := stk @
                    [if is_number H a \<and> is_number H b
                     then number_value H (double_add H (to_number H a) (to_number H b))
                     else string_value H (to_string H a @ to_string H b)],
                 vm_stats := (vm_stats vm)
                    \<lparr>optimized_paths_taken := optimized_paths_taken (vm_stats vm) + 1\<rparr>\<rparr>))
   \<and> map_option vm_stack
        (execute_instruction_simple sample_host add_op g (w\<lparr>vm_stack := [HNumber 3, HNumber 4]\<rparr>))
       = Some [HNumber 7]
   \<and> map_option vm_stack
        (execute_instruction_simple sample_host add_op g (w\<lparr>vm_stack := [HString ''a'', HString ''b'']\<rparr>))
       = Some [HString ''ab'']
   \<and> map_option vm_stack
        (execute_instruction_simple sample_host add_op g (w\<lparr>vm_stack := [HNumber 3, HString ''b'']\<rparr>))
       = Some [HString ''3b'']"
  by (simp add: execute_instruction_simple_def pop_def push_def butlast_append add_op_def
        sample_host_def int_to_string_def)

theorem ADD_semantics_witness:
  "instruction add_op = ADD
   \<and> vm_stack (BytecodeVM_init\<lparr>vm_stack := [HString ''x'', HNumber 10, HNumber 32]\<rparr>)
       = [HString ''x''] @ [HNumber 10, HNumber 32]
   \<and> map_option vm_stack
        (execute_instruction_simple sample_host add_op return_only
           (BytecodeVM_init\<lparr>vm_stack := [HString ''x'', HNumber 10, HNumber 32]\<rparr>))
       = Some [HString ''x'', HNumber 42]"
  using ADD_semantics [of add_op "BytecodeVM_init\<lparr>vm_stack := [HString ''x'', HNumber 10, HNumber 32]\<rparr>"
                         "[HString ''x'']" "HNumber 10" "HNumber 32" sample_host return_only]
  by (simp add: add_op_def sample_host_def)

text \<open>The VM never reads a vector out of range: an instruction, and a whole run, return.\<close>

lemma execute_instruction_simple_total:
  "\<exists>vm'. execute_instruction_simple H op function vm = Some vm'"
  by (cases "instruction op")
     (auto simp: execute_instruction_simple_def vec_at_def pop_def Let_def neq_Nil_conv
           split: if_splits)

lemma execute_loop_total: "\<exists>w'. execute_loop H fn k w = Some w'"
proof (induction H fn k w rule: execute_loop.induct)
  case (1 H fn k w)
  show ?case
  proof (cases "k < length (instructions fn)")
    case False
    then show ?thesis by (subst execute_loop.simps) simp
  next
    case True
    then have at: "vec_at (instructions fn) k = Some (instructions fn ! k)"
      by (simp add: vec_at_def)
    obtain vm1 where st: "execute_instruction_simple H (instructions fn ! k) fn w = Some vm1"
      using execute_instruction_simple_total by blast
    show ?thesis
      using True at st "1.IH" [OF True at st refl]
      by (subst execute_loop.simps) (simp add: Let_def)
  qed
qed

text \<open>
  Claim C9. No instruction reads out of range, and neither does a run of \<^verbatim>\<open>execute\<close>
  (both return \<open>Some\<close>). \<^verbatim>\<open>LOAD_CONST\<close> without an operand, or with an index that is not
  below the size of the constant pool, leaves the whole VM, and so the operand stack,
  unchanged, and execution goes on; with an index in bounds it pushes that constant, so
  the no-op branch is not taken.
\<close>

theorem constant_index_out_of_bounds_is_noop:
  "(\<exists>vm'. execute_instruction_simple H op function vm = Some vm')
   \<and> (\<exists>r. execute H fp args vm = Some r)
   \<and> (instruction op = LOAD_CONST
        \<and> (operands op = []
             \<or> length (constants function) \<le> unat (operand_value (operands op ! 0))) \<longrightarrow>
        execute_instruction_simple H op function vm = Some vm)
   \<and> (instruction op = LOAD_CONST \<and> operands op \<noteq> []
        \<and> unat (operand_value (operands op ! 0)) < length (constants function) \<longrightarrow>
        execute_instruction_simple H op function vm =
          Some (push (constants function ! unat (operand_value (operands op ! 0))) vm))"
proof (intro conjI)
  show "\<exists>vm'. execute_instruction_simple H op function vm = Some vm'"
    by (rule execute_instruction_simple_total)
next
  show "\<exists>r. execute H fp args vm = Some r"
    using execute_loop_total [of H "the fp" 0]
    by (cases fp) (auto simp: execute_def Let_def pop_def split: Option.bind_split)
next
  show "instruction op = LOAD_CONST
        \<and> (operands op = []
             \<or> length (constants function) \<le> unat (operand_value (operands op ! 0))) \<longrightarrow>
        execute_instruction_simple H op function vm = Some vm"
    by (auto simp: execute_instruction_simple_def vec_at_def)
next
  show "instruction op = LOAD_CONST \<and> operands op \<noteq> []
        \<and> unat (operand_value (operands op ! 0)) < length (constants function) \<longrightarrow>
        execute_instruction_simple H op function vm =
          Some (push (constants function ! unat (operand_value (operands op ! 0))) vm)"
    by (auto simp: execute_instruction_simple_def vec_at_def)
qed

theorem constant_index_out_of_bounds_is_noop_witness:
  "instruction (load_const 5) = LOAD_CONST
   \<and> length (constants one_constant) \<le> unat (operand_value (operands (load_const 5) ! 0))
   \<and> execute_instruction_simple sample_host (load_const 5) one_constant BytecodeVM_init
       = Some BytecodeVM_init
   \<and> operands \<lparr>instruction = LOAD_CONST, operands = []\<rparr> = []
   \<and> execute_instruction_simple sample_host \<lparr>instruction = LOAD_CONST, operands = []\<rparr>
         one_constant BytecodeVM_init
       = Some BytecodeVM_init
   \<and> operands (load_const 0) \<noteq> []
   \<and> unat (operand_value (operands (load_const 0) ! 0)) < length (constants one_constant)
   \<and> map_option vm_stack
        (execute_instruction_simple sample_host (load_const 0) one_constant BytecodeVM_init)
       = Some [HNumber 7]"
  using constant_index_out_of_bounds_is_noop
          [of sample_host "load_const 5" one_constant BytecodeVM_init None "[]"]
        constant_index_out_of_bounds_is_noop
          [of sample_host "\<lparr>instruction = LOAD_CONST, operands = []\<rparr>" one_constant
              BytecodeVM_init None "[]"]
        constant_index_out_of_bounds_is_noop
          [of sample_host "load_const 0" one_constant BytecodeVM_init None "[]"]
  by (simp add: load_const_def one_constant_def return_only_def new_function_def push_def
        BytecodeVM_init_def)

section \<open>Properties of the module decoder\<close>

lemma header_bytes:
  "8 \<le> length b \<Longrightarrow>
   (take 4 b = [a0, a1, a2, a3] \<and> take 4 (drop 4 b) = [a4, a5, a6, a7])
     = (b ! 0 = a0 \<and> b ! 1 = a1 \<and> b ! 2 = a2 \<and> b ! 3 = a3
        \<and> b ! 4 = a4 \<and> b ! 5 = a5 \<and> b ! 6 = a6 \<and> b ! 7 = a7)"
proof -
  assume len: "8 \<le> length b"
  have t1: "take 4 b = [b ! 0, b ! 1, b ! 2, b ! 3]"
    using len by (auto simp: list_eq_iff_nth_eq nth_Cons' less_Suc_eq numeral_eq_Suc)
  have t2: "take 4 (drop 4 b) = [b ! 4, b ! 5, b ! 6, b ! 7]"
    using len by (auto simp: list_eq_iff_nth_eq nth_Cons' less_Suc_eq numeral_eq_Suc)
  show ?thesis by (simp add: t1 t2)
qed

lemma parse_header_iff:
  "8 \<le> length (binary_data m) \<Longrightarrow>
   parse_header m = (take 4 (binary_data m) = [0x00, 0x61, 0x73, 0x6D]
                     \<and> take 4 (drop 4 (binary_data m)) = [0x01, 0x00, 0x00, 0x00])"
  by (auto simp: header_bytes parse_header_def Let_def)

text \<open>
  Claim C5. The decoder returns failure and leaves the module as it is (so \<^verbatim>\<open>compile\<close>
  fails and the module stays uncompiled) when the input has fewer than 8 bytes, when its
  first 4 bytes are not the magic number \<^verbatim>\<open>0x00 0x61 0x73 0x6D\<close>, or when the next 4 are
  not the version \<^verbatim>\<open>0x01 0x00 0x00 0x00\<close>. The code reports each failure as the boolean
  \<^verbatim>\<open>false\<close>. The eight header bytes alone compile to a module without sections; the same
  bytes with the first changed to \<^verbatim>\<open>0x01\<close> are rejected.
\<close>

theorem invalid_header_rejected:
  "(length (binary_data m) < 8
      \<or> take 4 (binary_data m) \<noteq> [0x00, 0x61, 0x73, 0x6D]
      \<or> take 4 (drop 4 (binary_data m)) \<noteq> [0x01, 0x00, 0x00, 0x00] \<longrightarrow>
        parse_binary m = (False, m)
        \<and> (\<not> is_compiled m \<longrightarrow> WasmModule_compile m = (False, m)))
   \<and> WasmModule_compile (WasmModule_init [0x00, 0x61, 0x73, 0x6D, 0x01, 0x00, 0x00, 0x00])
       = (True, \<lparr>binary_data = [0x00, 0x61, 0x73, 0x6D, 0x01, 0x00, 0x00, 0x00],
                 sections = [], is_compiled = True\<rparr>)
   \<and> WasmModule_compile (WasmModule_init [0x01, 0x61, 0x73, 0x6D, 0x01, 0x00, 0x00, 0x00])
       = (False, WasmModule_init [0x01, 0x61, 0x73, 0x6D, 0x01, 0x00, 0x00, 0x00])"
proof (intro conjI impI)
  assume bad: "length (binary_data m) < 8
      \<or> take 4 (binary_data m) \<noteq> [0x00, 0x61, 0x73, 0x6D]
      \<or> take 4 (drop 4 (binary_data m)) \<noteq> [0x01, 0x00, 0x00, 0x00]"
  show pb: "parse_binary m = (False, m)"
  proof (cases "length (binary_data m) < 8")
    case True
    then show ?thesis by (simp add: parse_binary_def)
  next
    case False
    with bad have "\<not> parse_header m" by (simp add: parse_header_iff)
    then show ?thesis by (simp add: parse_binary_def)
  qed
  assume "\<not> is_compiled m"
  then show "WasmModule_compile m = (False, m)"
    by (simp add: WasmModule_compile_def pb)
next
  show "WasmModule_compile (WasmModule_init [0x00, 0x61, 0x73, 0x6D, 0x01, 0x00, 0x00, 0x00])
       = (True, \<lparr>binary_data = [0x00, 0x61, 0x73, 0x6D, 0x01, 0x00, 0x00, 0x00],
                 sections = [], is_compiled = True\<rparr>)"
    by (simp add: WasmModule_compile_def WasmModule_init_def parse_binary_def parse_header_def
          parse_sections_def parse_sections_loop.simps validate_module_def)
next
  show "WasmModule_compile (WasmModule_init [0x01, 0x61, 0x73, 0x6D, 0x01, 0x00, 0x00, 0x00])
       = (False, WasmModule_init [0x01, 0x61, 0x73, 0x6D, 0x01, 0x00, 0x00, 0x00])"
    by (simp add: WasmModule_compile_def WasmModule_init_def parse_binary_def parse_header_def)
qed

theorem invalid_header_rejected_witness:
  "length (binary_data (WasmModule_init [0x00, 0x61, 0x73])) < 8
   \<and> \<not> is_compiled (WasmModule_init [0x00, 0x61, 0x73])
   \<and> WasmModule_compile (WasmModule_init [0x00, 0x61, 0x73])
       = (False, WasmModule_init [0x00, 0x61, 0x73])
   \<and> take 4 (drop 4 (binary_data (WasmModule_init [0x00, 0x61, 0x73, 0x6D, 0x02, 0x00, 0x00, 0x00])))
       \<noteq> [0x01, 0x00, 0x00, 0x00]
   \<and> parse_binary (WasmModule_init [0x00, 0x61, 0x73, 0x6D, 0x02, 0x00, 0x00, 0x00])
       = (False, WasmModule_init [0x00, 0x61, 0x73, 0x6D, 0x02, 0x00, 0x00, 0x00])"
  using invalid_header_rejected [of "WasmModule_init [0x00, 0x61, 0x73]"]
        invalid_header_rejected [of "WasmModule_init [0x00, 0x61, 0x73, 0x6D, 0x02, 0x00, 0x00, 0x00]"]
  by (simp add: WasmModule_init_def)












section \<open>Properties of the module interpreter\<close>

lemma default_instance_eq:
  "(default_instance :: ('f, 'n) WasmInstance) =
     \<lparr>wasm_module = Some \<lparr>binary_data = [0x00, 0x61, 0x73, 0x6D, 0x01, 0x00, 0x00, 0x00],
                            sections = [], is_compiled = True\<rparr>,
      wasm_memory = Some (WasmMemory_init 1 1024),
      wasm_vm = Some \<lparr>call_stack = []\<rparr>\<rparr>"
  by (simp add: default_instance_def instantiate_def WasmInstance_init_def
        WasmModule_compile_def WasmModule_init_def parse_binary_def parse_header_def
        parse_sections_def parse_sections_loop.simps validate_module_def)

lemma add_export:
  "is_number H x \<and> is_number H y \<Longrightarrow>
     fst (call_exported_function W H default_instance ''add'' [x, y])
       = number_value H (double_of_int H
           (sint (double_to_i32 H (as_number H x) + double_to_i32 H (as_number H y))))"
  by (simp add: default_instance_eq call_exported_function_def execute_function_def
        execute_function_loop.simps entry_frame_def execute_instruction_def opcode_of_byte_def Let_def
        handle_local_get_def handle_i32_add_def handle_return_def read_leb128_u32_def
        leb128_u32_loop.simps frame_result_def i32_def)

text \<open>
  Claim C7. On a stack that ends with \<open>a\<close> and then \<open>b\<close>, the handlers of \<^verbatim>\<open>I32_ADD\<close>,
  \<^verbatim>\<open>I32_SUB\<close> and \<^verbatim>\<open>I32_MUL\<close> pop \<open>b\<close>, pop \<open>a\<close> and push the 32-bit sum, difference and
  product of their \<^verbatim>\<open>i32\<close> members, and so does \<^verbatim>\<open>execute_instruction\<close> on these three
  opcodes, advancing \<^verbatim>\<open>pc\<close> by one; read as signed numbers the results are the exact ones
  wrapped into the range of \<^verbatim>\<open>int32_t\<close>. The export \<^verbatim>\<open>add\<close> on two numbers returns the
  wrapped sum of the two arguments cast to \<^verbatim>\<open>int32_t\<close>: 0 for (0, 0), -2 for (-5, 3) and
  -2147483648 for (2147483647, 1).
\<close>

theorem i32_arithmetic_wraps:
  "(stack frame = stk @ [a, b] \<longrightarrow>
      handle_i32_add W frame = (True, frame\<lparr>stack := stk @ [I32 (i32 W a + i32 W b)]\<rparr>)
      \<and> handle_i32_sub W frame = (True, frame\<lparr>stack := stk @ [I32 (i32 W a - i32 W b)]\<rparr>)
      \<and> handle_i32_mul W frame = (True, frame\<lparr>stack := stk @ [I32 (i32 W a * i32 W b)]\<rparr>))
   \<and> (stack frame = stk @ [a, b] \<and> pc frame < end_pc frame
        \<and> opcode_of_byte (code frame ! pc frame) = OP_I32_ADD \<longrightarrow>
        execute_instruction W H frame
          = (True, frame\<lparr>pc := pc frame + 1, stack := stk @ [I32 (i32 W a + i32 W b)]\<rparr>))
   \<and> (stack frame = stk @ [a, b] \<and> pc frame < end_pc frame
        \<and> opcode_of_byte (code frame ! pc frame) = OP_I32_SUB \<longrightarrow>
        execute_instruction W H frame
          = (True, frame\<lparr>pc := pc frame + 1, stack := stk @ [I32 (i32 W a - i32 W b)]\<rparr>))
   \<and> (stack frame = stk @ [a, b] \<and> pc frame < end_pc frame
        \<and> opcode_of_byte (code frame ! pc frame) = OP_I32_MUL \<longrightarrow>
        execute_instruction W H frame
          = (True, frame\<lparr>pc := pc frame + 1, stack := stk @ [I32 (i32 W a * i32 W b)]\<rparr>))
   \<and> sint (x + y :: 32 word) = signed_take_bit 31 (sint x + sint y)
   \<and> sint (x - y :: 32 word) = signed_take_bit 31 (sint x - sint y)
   \<and> sint (x * y :: 32 word) = signed_take_bit 31 (sint x * sint y)
   \<and> (is_number H u \<and> is_number H v \<longrightarrow>
        fst (call_exported_function W H default_instance ''add'' [u, v])
          = number_value H (double_of_int H
              (sint (double_to_i32 H (as_number H u) + double_to_i32 H (as_number H v)))))
   \<and> fst (call_exported_function W sample_host default_instance ''add'' [HNumber 0, HNumber 0])
       = HNumber 0
   \<and> fst (call_exported_function W sample_host default_instance ''add'' [HNumber (- 5), HNumber 3])
       = HNumber (- 2)
   \<and> fst (call_exported_function W sample_host default_instance ''add''
             [HNumber 2147483647, HNumber 1])
       = HNumber (- 2147483648)"
proof (intro conjI impI)
  assume st: "stack frame = stk @ [a, b]"
  then show "handle_i32_add W frame = (True, frame\<lparr>stack := stk @ [I32 (i32 W a + i32 W b)]\<rparr>)"
    by (simp add: handle_i32_add_def butlast_append)
  from st show "handle_i32_sub W frame = (True, frame\<lparr>stack := stk @ [I32 (i32 W a - i32 W b)]\<rparr>)"
    by (simp add: handle_i32_sub_def butlast_append)
  from st show "handle_i32_mul W frame = (True, frame\<lparr>stack := stk @ [I32 (i32 W a * i32 W b)]\<rparr>)"
    by (simp add: handle_i32_mul_def butlast_append)
next
  assume "stack frame = stk @ [a, b] \<and> pc frame < end_pc frame
        \<and> opcode_of_byte (code frame ! pc frame) = OP_I32_ADD"
  then show "execute_instruction W H frame
          = (True, frame\<lparr>pc := pc frame + 1, stack := stk @ [I32 (i32 W a + i32 W b)]\<rparr>)"
    by (simp add: execute_instruction_def handle_i32_add_def butlast_append Let_def)
next
  assume "stack frame = stk @ [a, b] \<and> pc frame < end_pc frame
        \<and> opcode_of_byte (code frame ! pc frame) = OP_I32_SUB"
  then show "execute_instruction W H frame
          = (True, frame\<lparr>pc := pc frame + 1, stack := stk @ [I32 (i32 W a - i32 W b)]\<rparr>)"
    by (simp add: execute_instruction_def handle_i32_sub_def butlast_append Let_def)
next
  assume "stack frame = stk @ [a, b] \<and> pc frame < end_pc frame
        \<and> opcode_of_byte (code frame ! pc frame) = OP_I32_MUL"
  then show "execute_instruction W H frame
          = (True, frame\<lparr>pc := pc frame + 1, stack := stk @ [I32 (i32 W a * i32 W b)]\<rparr>)"
    by (simp add: execute_instruction_def handle_i32_mul_def butlast_append Let_def)
next
  show "sint (x + y) = signed_take_bit 31 (sint x + sint y)"
    by (simp add: sint_word_ariths)
  show "sint (x - y) = signed_take_bit 31 (sint x - sint y)"
    by (simp add: sint_word_ariths)
  show "sint (x * y) = signed_take_bit 31 (sint x * sint y)"
    by (simp add: sint_word_ariths)
next
  assume "is_number H u \<and> is_number H v"
  then show "fst (call_exported_function W H default_instance ''add'' [u, v])
          = number_value H (double_of_int H
              (sint (double_to_i32 H (as_number H u) + double_to_i32 H (as_number H v))))"
    by (rule add_export)
next
  show "fst (call_exported_function W sample_host default_instance ''add'' [HNumber 0, HNumber 0])
       = HNumber 0"
    by (subst add_export) (simp_all add: sample_host_def)
  show "fst (call_exported_function W sample_host default_instance ''add'' [HNumber (- 5), HNumber 3])
       = HNumber (- 2)"
    by (subst add_export) (simp_all add: sample_host_def)
  show "fst (call_exported_function W sample_host default_instance ''add''
             [HNumber 2147483647, HNumber 1])
       = HNumber (- 2147483648)"
    by (subst add_export) (simp_all add: sample_host_def)
qed

theorem i32_arithmetic_wraps_witness:
  "stack (frame_with_stack [I32 7, I32 2147483647, I32 1]) = [I32 7] @ [I32 2147483647, I32 1]
   \<and> handle_i32_add sample_wasm (frame_with_stack [I32 7, I32 2147483647, I32 1])
       = (True, frame_with_stack [I32 7, I32 (- 2147483648)])
   \<and> handle_i32_sub sample_wasm (frame_with_stack [I32 7, I32 2147483647, I32 1])
       = (True, frame_with_stack [I32 7, I32 2147483646])
   \<and> handle_i32_mul sample_wasm (frame_with_stack [I32 7, I32 2147483647, I32 1])
       = (True, frame_with_stack [I32 7, I32 2147483647])
   \<and> pc (frame_at_opcode 0x6A [I32 7, I32 2147483647, I32 1])
       < end_pc (frame_at_opcode 0x6A [I32 7, I32 2147483647, I32 1])
   \<and> opcode_of_byte (code (frame_at_opcode 0x6A [I32 7, I32 2147483647, I32 1]) ! 0) = OP_I32_ADD
   \<and> execute_instruction sample_wasm sample_host
         (frame_at_opcode 0x6A [I32 7, I32 2147483647, I32 1])
       = (True, (frame_at_opcode 0x6A [I32 7, I32 (- 2147483648)])\<lparr>pc := 1\<rparr>)
   \<and> opcode_of_byte (code (frame_at_opcode 0x6B [I32 7, I32 (- 2147483648), I32 1]) ! 0)
       = OP_I32_SUB
   \<and> execute_instruction sample_wasm sample_host
         (frame_at_opcode 0x6B [I32 7, I32 (- 2147483648), I32 1])
       = (True, (frame_at_opcode 0x6B [I32 7, I32 2147483647])\<lparr>pc := 1\<rparr>)
   \<and> opcode_of_byte (code (frame_at_opcode 0x6C [I32 7, I32 65536, I32 65537]) ! 0) = OP_I32_MUL
   \<and> execute_instruction sample_wasm sample_host
         (frame_at_opcode 0x6C [I32 7, I32 65536, I32 65537])
       = (True, (frame_at_opcode 0x6C [I32 7, I32 65536])\<lparr>pc := 1\<rparr>)
   \<and> is_number sample_host (HNumber 20) \<and> is_number sample_host (HNumber 22)
   \<and> fst (call_exported_function sample_wasm sample_host default_instance ''add''
             [HNumber 20, HNumber 22])
       = HNumber 42"
  using i32_arithmetic_wraps
          [of "frame_with_stack [I32 7, I32 2147483647, I32 1]" "[I32 7]" "I32 2147483647" "I32 1"
              sample_wasm sample_host 0 0 "HNumber 20" "HNumber 22"]
        i32_arithmetic_wraps
          [of "frame_at_opcode 0x6A [I32 7, I32 2147483647, I32 1]" "[I32 7]" "I32 2147483647"
              "I32 1" sample_wasm sample_host 0 0 "HNumber 20" "HNumber 22"]
        i32_arithmetic_wraps
          [of "frame_at_opcode 0x6B [I32 7, I32 (- 2147483648), I32 1]" "[I32 7]"
              "I32 (- 2147483648)" "I32 1" sample_wasm sample_host 0 0 "HNumber 20" "HNumber 22"]
        i32_arithmetic_wraps
          [of "frame_at_opcode 0x6C [I32 7, I32 65536, I32 65537]" "[I32 7]" "I32 65536"
              "I32 65537" sample_wasm sample_host 0 0 "HNumber 20" "HNumber 22"]
  by (simp add: frame_with_stack_def frame_at_opcode_def i32_def opcode_of_byte_def
        sample_host_def)

text \<open>The loop of \<^verbatim>\<open>execute_function\<close> returns the result of the final frame.\<close>

lemma final_frame_unique:
  "final_frame W H fr a \<Longrightarrow> final_frame W H fr b \<Longrightarrow> a = b"
proof (induction arbitrary: b rule: final_frame.induct)
  case (at_end fr)
  from at_end.prems show ?case
  proof (cases rule: final_frame.cases)
    case at_end
    then show ?thesis by simp
  next
    case stopped
    with at_end.hyps show ?thesis by simp
  next
    case (continued fr')
    with at_end.hyps show ?thesis by simp
  qed
next
  case (stopped fr fr')
  from stopped.prems show ?case
  proof (cases rule: final_frame.cases)
    case at_end
    with stopped.hyps show ?thesis by simp
  next
    case stopped
    with stopped.hyps show ?thesis by simp
  next
    case (continued fr1)
    with stopped.hyps show ?thesis by simp
  qed
next
  case (continued fr fr' fr'')
  note hyps = continued.hyps and IH = continued.IH
  from continued.prems show ?case
  proof (cases rule: final_frame.cases)
    case at_end
    with hyps show ?thesis by simp
  next
    case stopped
    with hyps show ?thesis by simp
  next
    case (continued fr1)
    with hyps have "fr1 = fr'" by simp
    with continued(3) IH show ?thesis by blast
  qed
qed


lemma loop_at_end:
  assumes cs: "call_stack w = cs @ [fr]" and T: "end_pc fr \<le> pc fr"
  shows "execute_function_loop W H w = (frame_result W H fr, w\<lparr>call_stack := cs\<rparr>)"
  apply (subst execute_function_loop.simps)
  apply (simp only: cs Let_def)
  apply (simp add: T)
  done

lemma loop_stopped:
  assumes cs: "call_stack w = cs @ [fr]" and T: "pc fr < end_pc fr"
    and ex: "execute_instruction W H fr = (False, fr1)"
  shows "execute_function_loop W H w = (frame_result W H fr1, w\<lparr>call_stack := cs\<rparr>)"
  apply (subst execute_function_loop.simps)
  apply (simp only: cs Let_def)
  apply (insert T)
  apply (simp add: ex)
  done

lemma loop_continued:
  assumes cs: "call_stack w = cs @ [fr]" and T: "pc fr < end_pc fr"
    and ex: "execute_instruction W H fr = (True, fr1)"
  shows "execute_function_loop W H w = execute_function_loop W H (w\<lparr>call_stack := cs @ [fr1]\<rparr>)"
  apply (subst execute_function_loop.simps)
  apply (simp only: cs Let_def)
  apply (insert T)
  apply (simp add: ex)
  done

lemma loop_final_frame:
  "call_stack w = cs @ [fr] \<Longrightarrow>
     \<exists>fr'. final_frame W H fr fr'
            \<and> execute_function_loop W H w = (frame_result W H fr', w\<lparr>call_stack := cs\<rparr>)"
proof (induction W H w arbitrary: fr rule: execute_function_loop.induct)
  case (1 W H w)
  note cs = \<open>call_stack w = cs @ [fr]\<close>
  show ?case
  proof (cases "end_pc fr \<le> pc fr")
    case True
    then have "final_frame W H fr fr" by (rule at_end)
    with loop_at_end [OF cs True] show ?thesis by blast
  next
    case False
    then have lt: "pc fr < end_pc fr" by simp
    obtain continue fr1 where ex: "execute_instruction W H fr = (continue, fr1)"
      by (cases "execute_instruction W H fr")
    show ?thesis
    proof (cases continue)
      case False
      with ex have ex': "execute_instruction W H fr = (False, fr1)" by simp
      from lt ex' have "final_frame W H fr fr1" by (rule stopped)
      with loop_stopped [OF cs lt ex'] show ?thesis by blast
    next
      case True
      with ex have ex': "execute_instruction W H fr = (True, fr1)" by simp
      let ?w = "w\<lparr>call_stack := butlast (call_stack w) @ [fr1]\<rparr>"
      have ne: "call_stack w \<noteq> []" using cs by simp
      have lst: "fr = last (call_stack w)" using cs by simp
      have cs': "call_stack ?w = cs @ [fr1]" using cs by simp
      have w_eq: "?w = w\<lparr>call_stack := cs @ [fr1]\<rparr>" using cs by simp
      have "\<exists>fr'. final_frame W H fr1 fr'
              \<and> execute_function_loop W H ?w = (frame_result W H fr', ?w\<lparr>call_stack := cs\<rparr>)"
      proof (rule "1.IH" [OF ne lst _ refl _ refl _ cs'])
        show "\<not> end_pc fr \<le> pc fr" by fact
        show "(True, fr1) = execute_instruction W H fr" using ex' by simp
        show "\<not> \<not> True" by simp
      qed
      then obtain fr' where ff: "final_frame W H fr1 fr'"
        and el: "execute_function_loop W H (w\<lparr>call_stack := cs @ [fr1]\<rparr>)
                   = (frame_result W H fr', w\<lparr>call_stack := cs\<rparr>)"
        unfolding w_eq by auto
      from lt ex' ff have "final_frame W H fr fr'" by (rule continued)
      with loop_continued [OF cs lt ex'] el show ?thesis by auto
    qed
  qed
qed

text \<open>
  Claim C10, as the code has it. For a non-empty byte vector the entry frame has a final
  frame, and \<^verbatim>\<open>execute_function\<close> returns the result of that frame and leaves the VM as
  it was. The result of a frame is its top of stack (a zero value when the stack is
  empty) read through the member \<^verbatim>\<open>i32\<close> and converted to \<^verbatim>\<open>double\<close>: when the top was
  built as an \<^verbatim>\<open>f32\<close> or \<^verbatim>\<open>f64\<close>, the result is the number of the reinterpreted
  \<^verbatim>\<open>int32_t\<close>. For an empty byte vector no frame is made and the result is the default
  host value.
\<close>

theorem result_is_i32_view:
  "(bytecode \<noteq> [] \<longrightarrow>
      (\<exists>fr'. final_frame W H (entry_frame H bytecode args) fr')
      \<and> (\<forall>fr'. final_frame W H (entry_frame H bytecode args) fr' \<longrightarrow>
             execute_function W H bytecode args w = (frame_result W H fr', w)))
   \<and> frame_result W H fr
       = number_value H (double_of_int H
           (sint (i32 W (if stack fr = [] then WasmValue_init else last (stack fr)))))
   \<and> (stack fr = [] \<longrightarrow> frame_result W H fr = number_value H (double_of_int H 0))
   \<and> (stack fr = stk @ [I32 i] \<longrightarrow> frame_result W H fr = number_value H (double_of_int H (sint i)))
   \<and> (stack fr = stk @ [F32 x] \<longrightarrow>
        frame_result W H fr = number_value H (double_of_int H (sint (i32_of_f32 W x))))
   \<and> (stack fr = stk @ [F64 d] \<longrightarrow>
        frame_result W H fr = number_value H (double_of_int H (sint (i32_of_f64 W d))))
   \<and> execute_function W H [] args w = (undefined_value H, w)"
proof (intro conjI impI allI)
  assume ne: "bytecode \<noteq> []"
  let ?w = "w\<lparr>call_stack := call_stack w @ [entry_frame H bytecode args]\<rparr>"
  have "call_stack ?w = call_stack w @ [entry_frame H bytecode args]" by simp
  from loop_final_frame [OF this, of W]
  obtain fr0 where ff: "final_frame W H (entry_frame H bytecode args) fr0"
    and el: "execute_function_loop W H ?w = (frame_result W H fr0, w)"
    by auto
  from ff show "\<exists>fr'. final_frame W H (entry_frame H bytecode args) fr'" by blast
  fix fr'
  assume "final_frame W H (entry_frame H bytecode args) fr'"
  with ff have "fr' = fr0" using final_frame_unique by blast
  with ne el show "execute_function W H bytecode args w = (frame_result W H fr', w)"
    by (simp add: execute_function_def Let_def)
next
  show "frame_result W H fr
       = number_value H (double_of_int H
           (sint (i32 W (if stack fr = [] then WasmValue_init else last (stack fr)))))"
    by (simp add: frame_result_def)
next
  assume "stack fr = []"
  then show "frame_result W H fr = number_value H (double_of_int H 0)"
    by (simp add: frame_result_def WasmValue_init_def i32_def)
next
  assume "stack fr = stk @ [I32 i]"
  then show "frame_result W H fr = number_value H (double_of_int H (sint i))"
    by (simp add: frame_result_def i32_def)
next
  assume "stack fr = stk @ [F32 x]"
  then show "frame_result W H fr = number_value H (double_of_int H (sint (i32_of_f32 W x)))"
    by (simp add: frame_result_def i32_def)
next
  assume "stack fr = stk @ [F64 d]"
  then show "frame_result W H fr = number_value H (double_of_int H (sint (i32_of_f64 W d)))"
    by (simp add: frame_result_def i32_def)
next
  show "execute_function W H [] args w = (undefined_value H, w)"
    by (simp add: execute_function_def)
qed

theorem result_is_i32_view_witness:
  "[0x41, 0x2A, 0x0F] \<noteq> ([] :: 8 word list)
   \<and> final_frame sample_wasm sample_host (entry_frame sample_host [0x41, 0x2A, 0x0F] [])
        \<lparr>code = [0x41, 0x2A, 0x0F], pc = 3, end_pc = 3, locals = [], stack = [I32 42]\<rparr>
   \<and> execute_function sample_wasm sample_host [0x41, 0x2A, 0x0F] [] \<lparr>call_stack = []\<rparr>
       = (HNumber 42, \<lparr>call_stack = []\<rparr>)
   \<and> stack (frame_with_stack []) = []
   \<and> frame_result sample_wasm sample_host (frame_with_stack []) = HNumber 0
   \<and> stack (frame_with_stack [F32 5]) = [] @ [F32 5]
   \<and> frame_result sample_wasm sample_host (frame_with_stack [F32 5])
       = HNumber (sint (i32_of_f32 sample_wasm 5))
   \<and> stack (frame_with_stack [F64 3]) = [] @ [F64 3]
   \<and> frame_result sample_wasm sample_host (frame_with_stack [F64 3])
       = HNumber (sint (i32_of_f64 sample_wasm 3))"
proof -
  let ?e = "entry_frame sample_host [0x41, 0x2A, 0x0F] [] :: (int, int) ExecutionFrame"
  let ?m = "\<lparr>code = [0x41, 0x2A, 0x0F], pc = 2, end_pc = 3, locals = [],
            stack = [I32 42]\<rparr> :: (int, int) ExecutionFrame"
  let ?f = "\<lparr>code = [0x41, 0x2A, 0x0F], pc = 3, end_pc = 3, locals = [],
            stack = [I32 42]\<rparr> :: (int, int) ExecutionFrame"
  have e1: "execute_instruction sample_wasm sample_host ?e = (True, ?m)"
    by (simp add: entry_frame_def execute_instruction_def opcode_of_byte_def Let_def
          handle_i32_const_def read_leb128_i32_def leb128_i32_loop.simps)
  have e2: "execute_instruction sample_wasm sample_host ?m = (False, ?f)"
    by (simp add: execute_instruction_def opcode_of_byte_def Let_def handle_return_def)
  have mf: "final_frame sample_wasm sample_host ?m ?f"
    by (rule stopped [OF _ e2]) simp
  have ff: "final_frame sample_wasm sample_host ?e ?f"
    by (rule continued [OF _ e1 mf]) (simp add: entry_frame_def)
  show ?thesis
    using result_is_i32_view
            [of "[0x41, 0x2A, 0x0F]" sample_wasm sample_host "[]" "\<lparr>call_stack = []\<rparr>"
                "frame_with_stack []" "[]"]
          result_is_i32_view
            [of "[0x41, 0x2A, 0x0F]" sample_wasm sample_host "[]" "\<lparr>call_stack = []\<rparr>"
                "frame_with_stack [F32 5]" "[]" 5]
          result_is_i32_view
            [of "[0x41, 0x2A, 0x0F]" sample_wasm sample_host "[]" "\<lparr>call_stack = []\<rparr>"
                "frame_with_stack [F64 3]" "[]" _ 3]
          ff
    by (simp add: frame_with_stack_def frame_result_def sample_host_def i32_def)
qed

text \<open>
  Claim C10 as stated fails for an empty byte vector: the result is the default host
  value, not the number zero.
\<close>

theorem empty_bytecode_result_counterexample:
  "fst (execute_function sample_wasm sample_host [] [] \<lparr>call_stack = []\<rparr>)
     \<noteq> number_value sample_host (double_of_int sample_host
          (sint (i32 sample_wasm (WasmValue_init :: (int, int) WasmValue))))"
  by (simp add: execute_function_def sample_host_def WasmValue_init_def i32_def)

section \<open>Properties of the linear memory\<close>

text \<open>
  Claim C1 fails on the code: \<^verbatim>\<open>grow\<close> checks the bound and changes nothing. On the
  default memory of one page with a maximum of 1024, \<^verbatim>\<open>grow(1)\<close> returns \<^verbatim>\<open>true\<close> and the
  memory, hence its page count, is what it was. The 32-bit sum also wraps around:
  \<^verbatim>\<open>grow(0xFFFFFFFF)\<close> on the same memory returns \<^verbatim>\<open>true\<close>.
\<close>

theorem grow_does_not_grow:
  "grow (WasmMemory_init 1 1024) 1 = (True, WasmMemory_init 1 1024)
   \<and> WasmMemory_size (WasmMemory_init 1 1024) = 1
   \<and> WasmMemory_size (snd (grow (WasmMemory_init 1 1024) 1)) = 1
   \<and> fst (grow (WasmMemory_init 1 1024) 0xFFFFFFFF) = True"
  by (simp add: grow_def WasmMemory_init_def WasmMemory_size_def PAGE_SIZE_def)

end
